theory Spec2Isabelle
  imports Main "HOL-Library.AList" "HOL-Library.Sublist"
begin

section \<open>JSON documents\<close>

text \<open>
  Request and response bodies are byte slices holding JSON
  (\<^verbatim>\<open>json.Marshal\<close>, \<^verbatim>\<open>json.Unmarshal\<close>). They are represented by the JSON value
  they hold: the only values the backing object and its patches are made of are
  objects, strings and \<^verbatim>\<open>null\<close>. An object is an association list read with
  \<^const>\<open>map_of\<close>: the first binding of a name is the member of that name.
\<close>

datatype json = JNull | JString string | JObject "(string \<times> json) list"

fun members :: "json \<Rightarrow> (string \<times> json) list" where
  "members (JObject fs) = fs"
| "members _ = []"

text \<open>
  The merge patch of RFC 7386, which the store applies for
  \<^verbatim>\<open>types.MergePatchType\<close>: an object patch is merged member by member into the
  target (a target that is no object counts as the empty object), a \<^verbatim>\<open>null\<close> member
  removes the member of that name, and any other patch replaces the target.
\<close>

function MergePatch :: "json \<Rightarrow> json \<Rightarrow> json"
  and MergeFields :: "(string \<times> json) list \<Rightarrow> (string \<times> json) list \<Rightarrow> (string \<times> json) list"
  where
  "MergePatch target (JObject ps) = JObject (MergeFields (members target) ps)"
| "MergePatch target JNull = JNull"
| "MergePatch target (JString s) = JString s"
| "MergeFields t [] = t"
| "MergeFields t ((n, v) # ps) =
     MergeFields
       (if v = JNull then AList.delete n t
        else AList.update n
               (MergePatch (case map_of t n of Some x \<Rightarrow> x | None \<Rightarrow> JNull) v) t)
       ps"
  by pat_completeness auto
termination
  by (relation "measure (\<lambda>x. case x of
          Inl (t, p) \<Rightarrow> size p
        | Inr (t, ps) \<Rightarrow> size_list (size_prod (\<lambda>_. 0) size) ps)") auto

section \<open>Strings in JSON\<close>

text \<open>
  A Go string is any sequence of bytes; a string of a JSON document is valid
  UTF-8. \<^verbatim>\<open>json.Marshal\<close> writes a string (a value or the key of a map) with every
  byte that starts no well-formed UTF-8 sequence replaced by the replacement
  character U+FFFD, the three bytes \<^verbatim>\<open>EF BF BD\<close>; \<^verbatim>\<open>json.Unmarshal\<close> reads a string
  the same way. The well-formed sequences are those of \<^verbatim>\<open>utf8.DecodeRuneInString\<close>:
  \<^verbatim>\<open>utf8_size\<close> is the width it returns for the sequence at the head of the
  string, and 0 where it returns \<^verbatim>\<open>(RuneError, 1)\<close> for an invalid byte.
\<close>

definition byte :: "char \<Rightarrow> nat" where
  "byte c = of_char c"

definition continuation :: "char \<Rightarrow> bool" where
  "continuation c = (0x80 \<le> byte c \<and> byte c \<le> 0xBF)"

text \<open>The range accepted for the second byte, by the first byte.\<close>

definition accept_lo :: "nat \<Rightarrow> nat" where
  "accept_lo b0 = (if b0 = 0xE0 then 0xA0 else if b0 = 0xF0 then 0x90 else 0x80)"

definition accept_hi :: "nat \<Rightarrow> nat" where
  "accept_hi b0 = (if b0 = 0xED then 0x9F else if b0 = 0xF4 then 0x8F else 0xBF)"

definition utf8_size :: "string \<Rightarrow> nat" where
  "utf8_size s =
     (case s of
        [] \<Rightarrow> 0
      | c0 # cs \<Rightarrow>
          (let b0 = byte c0 in
           if b0 < 0x80 then 1
           else if b0 < 0xC2 then 0
           else if b0 \<le> 0xDF then
             (case cs of
                c1 # _ \<Rightarrow> if accept_lo b0 \<le> byte c1 \<and> byte c1 \<le> accept_hi b0 then 2 else 0
              | _ \<Rightarrow> 0)
           else if b0 \<le> 0xEF then
             (case cs of
                c1 # c2 # _ \<Rightarrow>
                  if accept_lo b0 \<le> byte c1 \<and> byte c1 \<le> accept_hi b0 \<and> continuation c2
                  then 3 else 0
              | _ \<Rightarrow> 0)
           else if b0 \<le> 0xF4 then
             (case cs of
                c1 # c2 # c3 # _ \<Rightarrow>
                  if accept_lo b0 \<le> byte c1 \<and> byte c1 \<le> accept_hi b0 \<and> continuation c2
                     \<and> continuation c3
                  then 4 else 0
              | _ \<Rightarrow> 0)
           else 0))"

text \<open>The UTF-8 encoding of U+FFFD.\<close>

definition RuneError :: string where
  "RuneError = [CHR 0xEF, CHR 0xBF, CHR 0xBD]"

text \<open>
  The string that the encoder writes and the decoder reads for a string: a
  well-formed sequence is kept, an invalid byte becomes \<^const>\<open>RuneError\<close>.
\<close>

fun utf8_coerce :: "string \<Rightarrow> string" where
  "utf8_coerce [] = []"
| "utf8_coerce (c # cs) =
     (if utf8_size (c # cs) = 0 then RuneError @ utf8_coerce cs
      else (c # take (utf8_size (c # cs) - 1) cs) @
           utf8_coerce (drop (utf8_size (c # cs) - 1) cs))"

text \<open>\<^verbatim>\<open>utf8.ValidString\<close>: the strings that the encoder writes unchanged.\<close>

definition utf8_ValidString :: "string \<Rightarrow> bool" where
  "utf8_ValidString s = (utf8_coerce s = s)"

text \<open>
  What a JSON decoder reads from a document: every string and every member name
  as it reads a string.
\<close>

function parsed :: "json \<Rightarrow> json"
  and parsed_members :: "(string \<times> json) list \<Rightarrow> (string \<times> json) list"
  where
  "parsed JNull = JNull"
| "parsed (JString s) = JString (utf8_coerce s)"
| "parsed (JObject fs) = JObject (parsed_members fs)"
| "parsed_members [] = []"
| "parsed_members ((n, v) # fs) = (utf8_coerce n, parsed v) # parsed_members fs"
  by pat_completeness auto
termination
  by (relation "measure (\<lambda>x. case x of
          Inl v \<Rightarrow> size v
        | Inr fs \<Rightarrow> size_list (size_prod (\<lambda>_. 0) size) fs)") auto

section \<open>Errors\<close>

text \<open>
  Errors of the collaborators (\<^verbatim>\<open>operatorkit/tpr\<close>, the Kubernetes client,
  \<^verbatim>\<open>encoding/json\<close>). \<^verbatim>\<open>tpr.IsAlreadyExists\<close> recognises the \<^verbatim>\<open>tpr\<close> package's
  own error, \<^verbatim>\<open>errors.IsAlreadyExists\<close> the API status of that reason: they are two
  different errors.
\<close>

datatype ext_error =
    TPRAlreadyExists
  | StatusAlreadyExists
  | StatusNotFound
  | OtherError string

text \<open>
  Modelled from the spec: the error values \<^verbatim>\<open>invalidConfigError\<close> and
  \<^verbatim>\<open>notFoundError\<close>, which \<^verbatim>\<open>storage.go\<close> uses and another file of the package
  declares. They are two distinct values of the package's own
  (\<^verbatim>\<open>InvalidConfiguration\<close>, \<^verbatim>\<open>NotFound\<close>), which no collaborator returns.

  An error is represented by its cause: \<^verbatim>\<open>microerror.Mask\<close> and \<^verbatim>\<open>microerror.Maskf\<close>
  wrap an error and keep its cause, so they are the identity here. The last
  constructor is no returned error: it is the run-time panic of a slice
  expression out of range, which ends the call.
\<close>

datatype error =
    invalidConfigError
  | notFoundError
  | External ext_error
  | panic_slice_bounds_out_of_range

definition tpr_IsAlreadyExists :: "ext_error option \<Rightarrow> bool" where
  "tpr_IsAlreadyExists err = (err = Some TPRAlreadyExists)"

definition errors_IsAlreadyExists :: "ext_error option \<Rightarrow> bool" where
  "errors_IsAlreadyExists err = (err = Some StatusAlreadyExists)"

section \<open>Collaborators\<close>

text \<open>
  The store client (\<^verbatim>\<open>kubernetes.Interface\<close>), the logger (\<^verbatim>\<open>micrologger.Logger\<close>)
  and the resource type (\<^verbatim>\<open>*tpr.TPR\<close>) are interfaces of other packages. Each is a
  record of its methods over a state \<^typ>\<open>'s\<close> of the world outside the program
  (the store and the log); a method that changes the world returns the new state.
  An \<^verbatim>\<open>error\<close> result is an option: \<^const>\<open>None\<close> is \<^verbatim>\<open>nil\<close>. The context argument
  of the calls is left out: a cancelled call is a call that returns an error.
\<close>

datatype PatchType = JSONPatchType | MergePatchType | StrategicMergePatchType

record 's k8sClient =
  Namespaces_Create :: "string \<Rightarrow> 's \<Rightarrow> ext_error option \<times> 's"
  rest_Get :: "string \<Rightarrow> 's \<Rightarrow> ext_error + json"
  rest_Post :: "string \<Rightarrow> json \<Rightarrow> 's \<Rightarrow> ext_error option \<times> 's"
  rest_Patch :: "PatchType \<Rightarrow> string \<Rightarrow> json \<Rightarrow> 's \<Rightarrow> ext_error option \<times> 's"

record 's Logger =
  Log :: "string list \<Rightarrow> 's \<Rightarrow> 's"

text \<open>\<^verbatim>\<open>Logger.With\<close>: a logger that adds the given context to every line.\<close>

definition Logger_With :: "string list \<Rightarrow> 's Logger \<Rightarrow> 's Logger" where
  "Logger_With kv l = \<lparr>Log = (\<lambda>v. Log l (v @ kv))\<rparr>"

record 's tpr_TPR =
  Kind :: string
  APIVersion :: string
  Endpoint :: "string \<Rightarrow> string"
  CreateAndWait :: "'s \<Rightarrow> ext_error option \<times> 's"

record 's tpr_Config =
  tpr_Logger :: "'s Logger"
  tpr_K8sClient :: "'s k8sClient"
  tpr_Name :: string
  tpr_Version :: string
  tpr_Description :: string

section \<open>Configuration and the storage\<close>

record TPRConfig =
  TPR_Name :: string
  TPR_Version :: string
  TPR_Description :: string

record TPOConfig =
  TPO_Name :: string
  TPO_Namespace :: string

text \<open>A dependency that is \<^verbatim>\<open>nil\<close> is \<^const>\<open>None\<close>.\<close>

record 's Config =
  K8sClient :: "'s k8sClient option"
  Logger :: "'s Logger option"
  TPR :: TPRConfig
  TPO :: TPOConfig

definition DefaultConfig :: "'s Config" where
  "DefaultConfig =
     \<lparr>K8sClient = None,
      Logger = None,
      TPR = \<lparr>TPR_Name = ''tpr-storage.giantswarm.io'',
             TPR_Version = ''v1'',
             TPR_Description = ''Storage data managed by github.com/giantswarm/tprstorage''\<rparr>,
      TPO = \<lparr>TPO_Name = '''', TPO_Namespace = ''giantswarm''\<rparr>\<rparr>"

record 's Storage =
  logger :: "'s Logger"
  logctx :: "string list"
  k8sClient :: "'s k8sClient"
  tpr :: "'s tpr_TPR"
  tpoEndpoint :: string
  tpoListEndpoint :: string

section \<open>The backing object\<close>

text \<open>
  Modelled from the spec: the type \<^verbatim>\<open>customObject\<close>, which \<^verbatim>\<open>storage.go\<close> uses and
  another file of the package declares. The spec gives its JSON shape: top-level
  members \<^verbatim>\<open>kind\<close>, \<^verbatim>\<open>apiVersion\<close>, \<^verbatim>\<open>metadata.{name,namespace,annotations}\<close> and
  \<^verbatim>\<open>data\<close>, a flat object of strings. A Go map is an association list with
  distinct keys; its order stands for the iteration order, which Go leaves open.
\<close>

record customObject =
  co_Kind :: string
  co_APIVersion :: string
  co_Name :: string
  co_Namespace :: string
  co_Annotations :: "(string \<times> string) list"
  Data :: "(string \<times> string) list"

fun marshal_map :: "(string \<times> string) list \<Rightarrow> (string \<times> json) list" where
  "marshal_map [] = []"
| "marshal_map ((k, v) # m) = (utf8_coerce k, JString (utf8_coerce v)) # marshal_map m"

definition marshal_customObject :: "customObject \<Rightarrow> ext_error + json" where
  "marshal_customObject v =
     Inr (JObject
       [(''kind'', JString (utf8_coerce (co_Kind v))),
        (''apiVersion'', JString (utf8_coerce (co_APIVersion v))),
        (''metadata'', JObject
           [(''name'', JString (utf8_coerce (co_Name v))),
            (''namespace'', JString (utf8_coerce (co_Namespace v))),
            (''annotations'', JObject (marshal_map (co_Annotations v)))]),
        (''data'', JObject (marshal_map (Data v)))])"

text \<open>
  Decoding into a Go string: an absent member and \<^verbatim>\<open>null\<close> leave the zero value,
  an object is a type error.
\<close>

fun unmarshal_string :: "json option \<Rightarrow> ext_error + string" where
  "unmarshal_string None = Inr ''''"
| "unmarshal_string (Some JNull) = Inr ''''"
| "unmarshal_string (Some (JString s)) = Inr (utf8_coerce s)"
| "unmarshal_string (Some (JObject fs)) =
     Inl (OtherError ''json: cannot unmarshal object into Go value of type string'')"

fun unmarshal_entries :: "(string \<times> json) list \<Rightarrow> ext_error + (string \<times> string) list" where
  "unmarshal_entries [] = Inr []"
| "unmarshal_entries ((k, v) # fs) =
     (case unmarshal_string (Some v) of
        Inl e \<Rightarrow> Inl e
      | Inr s \<Rightarrow>
          (case unmarshal_entries fs of
             Inl e \<Rightarrow> Inl e
           | Inr m \<Rightarrow> Inr ((utf8_coerce k, s) # AList.delete (utf8_coerce k) m)))"

fun unmarshal_map :: "json option \<Rightarrow> ext_error + (string \<times> string) list" where
  "unmarshal_map None = Inr []"
| "unmarshal_map (Some JNull) = Inr []"
| "unmarshal_map (Some (JString s)) =
     Inl (OtherError ''json: cannot unmarshal string into Go value of type map[string]string'')"
| "unmarshal_map (Some (JObject fs)) = unmarshal_entries fs"

definition unmarshal_customObject :: "json \<Rightarrow> ext_error + customObject" where
  "unmarshal_customObject doc =
     (case doc of
        JString s \<Rightarrow>
          Inl (OtherError ''json: cannot unmarshal string into Go value of type customObject'')
      | _ \<Rightarrow>
        (case unmarshal_string (map_of (members doc) ''kind'') of Inl e \<Rightarrow> Inl e | Inr kind \<Rightarrow>
        (case unmarshal_string (map_of (members doc) ''apiVersion'') of Inl e \<Rightarrow> Inl e | Inr ver \<Rightarrow>
        (case map_of (members doc) ''metadata'' of
           Some (JString s) \<Rightarrow>
             Inl (OtherError ''json: cannot unmarshal string into Go value of type ObjectMeta'')
         | m \<Rightarrow>
        (let meta = (case m of Some x \<Rightarrow> members x | None \<Rightarrow> []) in
        (case unmarshal_string (map_of meta ''name'') of Inl e \<Rightarrow> Inl e | Inr name \<Rightarrow>
        (case unmarshal_string (map_of meta ''namespace'') of Inl e \<Rightarrow> Inl e | Inr ns \<Rightarrow>
        (case unmarshal_map (map_of meta ''annotations'') of Inl e \<Rightarrow> Inl e | Inr ann \<Rightarrow>
        (case unmarshal_map (map_of (members doc) ''data'') of Inl e \<Rightarrow> Inl e | Inr d \<Rightarrow>
           Inr \<lparr>co_Kind = kind, co_APIVersion = ver, co_Name = name, co_Namespace = ns,
                co_Annotations = ann, Data = d\<rparr>)))))))))"

section \<open>Construction\<close>

text \<open>The three provisioning blocks of \<^verbatim>\<open>New\<close>, in the order of the source.\<close>

definition createTPR :: "'s Storage \<Rightarrow> 's \<Rightarrow> error option \<times> 's" where
  "createTPR s w =
     (case CreateAndWait (tpr s) w of (err, w1) \<Rightarrow>
        if tpr_IsAlreadyExists err then
          (None, Log (logger s) [''debug'', ''TPR already exists''] w1)
        else
          (case err of
             Some e \<Rightarrow> (Some (External e), w1)
           | None \<Rightarrow> (None, Log (logger s) [''debug'', ''TPR created''] w1)))"

definition createNamespace :: "'s Storage \<Rightarrow> 's Config \<Rightarrow> 's \<Rightarrow> error option \<times> 's" where
  "createNamespace s config w =
     (let ns_Name = TPO_Namespace (TPO config) in
      case Namespaces_Create (k8sClient s) ns_Name w of (err, w1) \<Rightarrow>
        if errors_IsAlreadyExists err then
          (None, Log (logger s) [''debug'', ''namespace '' @ ns_Name @ '' already exists''] w1)
        else
          (case err of
             Some e \<Rightarrow> (Some (External e), w1)
           | None \<Rightarrow>
               (None, Log (logger s) [''debug'', ''namespace '' @ ns_Name @ '' created''] w1)))"

text \<open>The object literal of the third block.\<close>

definition newTPO :: "'s Storage \<Rightarrow> 's Config \<Rightarrow> customObject" where
  "newTPO s config =
     \<lparr>co_Kind = Kind (tpr s),
      co_APIVersion = APIVersion (tpr s),
      co_Name = TPO_Name (TPO config),
      co_Namespace = TPO_Namespace (TPO config),
      co_Annotations = [(''storageDoNotOmitempty'', ''non-empty'')],
      Data = []\<rparr>"

definition createTPO :: "'s Storage \<Rightarrow> 's Config \<Rightarrow> 's \<Rightarrow> error option \<times> 's" where
  "createTPO s config w =
     (let tpo = newTPO s config in
      case marshal_customObject tpo of
        Inl e \<Rightarrow> (Some (External e), w)
      | Inr body \<Rightarrow>
          (case rest_Post (k8sClient s) (tpoListEndpoint s) body w of (err, w1) \<Rightarrow>
             if errors_IsAlreadyExists err then
               (None, Log (logger s) [''debug'', ''TPO '' @ co_Name tpo @ '' already exists''] w1)
             else
               (case err of
                  Some e \<Rightarrow> (Some (External e), w1)
                | None \<Rightarrow>
                    (None, Log (logger s) [''debug'', ''TPO '' @ co_Name tpo @ '' created''] w1))))"

text \<open>
  The parts of \<^verbatim>\<open>New\<close> that build values: the default of the namespace, the
  configuration handed to \<^verbatim>\<open>tpr.New\<close> (the fields \<^verbatim>\<open>New\<close> sets) and the
  \<^verbatim>\<open>Storage\<close> literal.
\<close>

definition defaultNamespace :: "'s Config \<Rightarrow> 's Config" where
  "defaultNamespace config =
     (if TPO_Namespace (TPO config) = ''''
      then config\<lparr>TPO := (TPO config)\<lparr>TPO_Namespace := ''default''\<rparr>\<rparr>
      else config)"

definition tprConfig :: "'s Config \<Rightarrow> 's k8sClient \<Rightarrow> 's Logger \<Rightarrow> 's tpr_Config" where
  "tprConfig config client lg =
     \<lparr>tpr_Logger = lg,
      tpr_K8sClient = client,
      tpr_Name = TPR_Name (TPR config),
      tpr_Version = TPR_Version (TPR config),
      tpr_Description = TPR_Description (TPR config)\<rparr>"

definition newStorage ::
  "'s Config \<Rightarrow> 's k8sClient \<Rightarrow> 's Logger \<Rightarrow> 's tpr_TPR \<Rightarrow> 's Storage" where
  "newStorage config client lg newTPR =
     \<lparr>logger =
        Logger_With
          [''tprName'', TPR_Name (TPR config),
           ''tprVersion'', TPR_Version (TPR config),
           ''tpoName'', TPO_Name (TPO config),
           ''tpoNamespace'', TPO_Namespace (TPO config)] lg,
      logctx = [],
      k8sClient = client,
      tpr = newTPR,
      tpoEndpoint = Endpoint newTPR (TPO_Namespace (TPO config)) @ ''/'' @ TPO_Name (TPO config),
      tpoListEndpoint = Endpoint newTPR (TPO_Namespace (TPO config))\<rparr>"

text \<open>
  \<^verbatim>\<open>New\<close>. The constructor \<^verbatim>\<open>tpr.New\<close> of the resource type belongs to another
  package and is a parameter. The result is the pair \<^verbatim>\<open>(*Storage, error)\<close> as a sum:
  every error return of the source returns a \<^verbatim>\<open>nil\<close> storage.
\<close>

definition New ::
  "('s tpr_Config \<Rightarrow> ext_error + 's tpr_TPR) \<Rightarrow> 's Config \<Rightarrow> 's \<Rightarrow> (error + 's Storage) \<times> 's"
  where
  "New tpr_New config0 w =
     (case K8sClient config0 of None \<Rightarrow> (Inl invalidConfigError, w) | Some client \<Rightarrow>
     (case Logger config0 of None \<Rightarrow> (Inl invalidConfigError, w) | Some lg \<Rightarrow>
      if TPR_Name (TPR config0) = '''' then (Inl invalidConfigError, w)
      else if TPR_Version (TPR config0) = '''' then (Inl invalidConfigError, w)
      else if TPO_Name (TPO config0) = '''' then (Inl invalidConfigError, w)
      else
        (let config = defaultNamespace config0 in
         case tpr_New (tprConfig config client lg) of
           Inl e \<Rightarrow> (Inl (External e), w)
         | Inr newTPR \<Rightarrow>
             (let s = newStorage config client lg newTPR in
              case createTPR s w of
                (Some e, w1) \<Rightarrow> (Inl e, w1)
              | (None, w1) \<Rightarrow>
                  (case createNamespace s config w1 of
                     (Some e, w2) \<Rightarrow> (Inl e, w2)
                   | (None, w2) \<Rightarrow>
                       (case createTPO s config w2 of
                          (Some e, w3) \<Rightarrow> (Inl e, w3)
                        | (None, w3) \<Rightarrow> (Inr s, w3)))))))"

section \<open>The key-value operations\<close>

definition marshal_Put_body :: "string \<Rightarrow> string \<Rightarrow> ext_error + json" where
  "marshal_Put_body key val = Inr (JObject [(''data'', JObject (marshal_map [(key, val)]))])"

definition Put :: "'s Storage \<Rightarrow> string \<Rightarrow> string \<Rightarrow> 's \<Rightarrow> error option \<times> 's" where
  "Put s key val w =
     (case marshal_Put_body key val of
        Inl e \<Rightarrow> (Some (External e), w)
      | Inr body \<Rightarrow>
          (case rest_Patch (k8sClient s) MergePatchType (tpoEndpoint s) body w of
             (Some e, w1) \<Rightarrow> (Some (External e), w1)
           | (None, w1) \<Rightarrow> (None, w1)))"

text \<open>
  \<^verbatim>\<open>Create\<close> masks the error of \<^verbatim>\<open>Put\<close> and drops the masked error: the statement
  \<^verbatim>\<open>microerror.Mask(err)\<close> has no \<^verbatim>\<open>return\<close>, and the function ends with
  \<^verbatim>\<open>return nil\<close>.
\<close>

definition Create :: "'s Storage \<Rightarrow> string \<Rightarrow> string \<Rightarrow> 's \<Rightarrow> error option \<times> 's" where
  "Create s key val w =
     (case Put s key val w of
        (Some e, w1) \<Rightarrow> (None, w1)
      | (None, w1) \<Rightarrow> (None, w1))"

definition getData :: "'s Storage \<Rightarrow> 's \<Rightarrow> error + (string \<times> string) list" where
  "getData s w =
     (case rest_Get (k8sClient s) (tpoEndpoint s) w of
        Inl e \<Rightarrow> Inl (External e)
      | Inr res \<Rightarrow>
          (case unmarshal_customObject res of
             Inl e \<Rightarrow> Inl (External e)
           | Inr v \<Rightarrow> Inr (Data v)))"

definition Exists :: "'s Storage \<Rightarrow> string \<Rightarrow> 's \<Rightarrow> error + bool" where
  "Exists s key w =
     (case getData s w of
        Inl e \<Rightarrow> Inl e
      | Inr data \<Rightarrow> Inr (map_of data key \<noteq> None))"

definition Search :: "'s Storage \<Rightarrow> string \<Rightarrow> 's \<Rightarrow> error + string" where
  "Search s key w =
     (case getData s w of
        Inl e \<Rightarrow> Inl e
      | Inr data \<Rightarrow>
          (case map_of data key of
             None \<Rightarrow> Inl notFoundError
           | Some v \<Rightarrow> Inr v))"

text \<open>
  The loop of \<^verbatim>\<open>List\<close> over the keys of the data map, with the list built so far.
  Go strings are byte strings, as \<^typ>\<open>string\<close> is. After \<^verbatim>\<open>strings.HasPrefix\<close> the
  key is at least as long as the prefix, so the index \<^verbatim>\<open>k[keyLen]\<close> is read only
  when it is in range; the slice \<^verbatim>\<open>k[keyLen+1:]\<close> panics when \<^verbatim>\<open>keyLen+1\<close> is
  greater than \<^verbatim>\<open>len(k)\<close>.
\<close>

fun List_loop :: "string \<Rightarrow> string list \<Rightarrow> string list \<Rightarrow> error + string list" where
  "List_loop key [] list = Inr list"
| "List_loop key (k # ks) list =
     (if \<not> prefix key k then List_loop key ks list
      else if length k \<noteq> length key \<and> k ! length key \<noteq> CHR ''/'' then List_loop key ks list
      else if length key + 1 > length k then Inl panic_slice_bounds_out_of_range
      else List_loop key ks (list @ [drop (length key + 1) k]))"

definition List :: "'s Storage \<Rightarrow> string \<Rightarrow> 's \<Rightarrow> error + string list" where
  "List s key w =
     (case getData s w of
        Inl e \<Rightarrow> Inl e
      | Inr data \<Rightarrow> List_loop key (map fst data) [])"

definition marshal_Delete_body :: "string \<Rightarrow> ext_error + json" where
  "marshal_Delete_body key =
     Inr (JObject [(''data'', JObject [(utf8_coerce key, JNull)])])"

definition Delete :: "'s Storage \<Rightarrow> string \<Rightarrow> 's \<Rightarrow> error option \<times> 's" where
  "Delete s key w =
     (case marshal_Delete_body key of
        Inl e \<Rightarrow> (Some (External e), w)
      | Inr body \<Rightarrow>
          (case rest_Patch (k8sClient s) MergePatchType (tpoEndpoint s) body w of
             (Some e, w1) \<Rightarrow> (Some (External e), w1)
           | (None, w1) \<Rightarrow> (None, w1)))"

section \<open>The earlier variant of the package\<close>

text \<open>
  The second source file is an earlier variant of \<^verbatim>\<open>storage.go\<close> with the namespace
  and the object name as constants. Its \<^verbatim>\<open>Search\<close> differs from the one above: it
  returns \<^verbatim>\<open>data[key]\<close> with a \<^verbatim>\<open>nil\<close> error, and the Go map gives the empty string
  for an absent key.
\<close>

definition customObjectName :: string where
  "customObjectName = ''storage''"

definition namespace :: string where
  "namespace = ''pawel''"

definition legacy_getData :: "'s Storage \<Rightarrow> 's \<Rightarrow> error + (string \<times> string) list" where
  "legacy_getData s w =
     (case rest_Get (k8sClient s) (Endpoint (tpr s) namespace @ ''/'' @ customObjectName) w of
        Inl e \<Rightarrow> Inl (External e)
      | Inr res \<Rightarrow>
          (case unmarshal_customObject res of
             Inl e \<Rightarrow> Inl (External e)
           | Inr v \<Rightarrow> Inr (Data v)))"

definition legacy_Search :: "'s Storage \<Rightarrow> string \<Rightarrow> 's \<Rightarrow> error + string" where
  "legacy_Search s key w =
     (case legacy_getData s w of
        Inl e \<Rightarrow> Inl e
      | Inr data \<Rightarrow> Inr (case map_of data key of None \<Rightarrow> '''' | Some v \<Rightarrow> v))"

section \<open>A store with merge-patch semantics\<close>

text \<open>
  The collaborators as the spec describes them (its sections 4.1 and 6): a store
  that holds the registered resource types, the namespaces and the objects by
  item path, answers a creation of what exists with "already exists", a request
  for an object that does not exist with "not found", and applies a merge patch
  to the stored object. The store works on documents as a JSON decoder reads
  them (\<^const>\<open>parsed\<close>): the ones it is sent and the ones it holds. The log is
  the list of the lines written.
\<close>

record world =
  registered :: "string list"
  namespaces :: "string list"
  objects :: "(string \<times> json) list"
  logged :: "string list list"

definition world_CreateAndWait :: "string \<Rightarrow> world \<Rightarrow> ext_error option \<times> world" where
  "world_CreateAndWait name w =
     (if name \<in> set (registered w) then (Some TPRAlreadyExists, w)
      else (None, w\<lparr>registered := name # registered w\<rparr>))"

definition world_Namespaces_Create :: "string \<Rightarrow> world \<Rightarrow> ext_error option \<times> world" where
  "world_Namespaces_Create ns w =
     (if ns \<in> set (namespaces w) then (Some StatusAlreadyExists, w)
      else (None, w\<lparr>namespaces := ns # namespaces w\<rparr>))"

definition world_Get :: "string \<Rightarrow> world \<Rightarrow> ext_error + json" where
  "world_Get path w =
     (case map_of (objects w) path of
        None \<Rightarrow> Inl StatusNotFound
      | Some doc \<Rightarrow> Inr (parsed doc))"

text \<open>The name of an object, read from \<^verbatim>\<open>metadata.name\<close> of its body.\<close>

definition object_name :: "json \<Rightarrow> string" where
  "object_name body =
     (case map_of (members body) ''metadata'' of
        Some m \<Rightarrow> (case map_of (members m) ''name'' of Some (JString n) \<Rightarrow> n | _ \<Rightarrow> '''')
      | None \<Rightarrow> '''')"

definition world_Post :: "string \<Rightarrow> json \<Rightarrow> world \<Rightarrow> ext_error option \<times> world" where
  "world_Post path body w =
     (let item = path @ ''/'' @ object_name (parsed body) in
      case map_of (objects w) item of
        Some doc \<Rightarrow> (Some StatusAlreadyExists, w)
      | None \<Rightarrow> (None, w\<lparr>objects := AList.update item (parsed body) (objects w)\<rparr>))"

definition world_Patch :: "PatchType \<Rightarrow> string \<Rightarrow> json \<Rightarrow> world \<Rightarrow> ext_error option \<times> world" where
  "world_Patch pt path body w =
     (if pt \<noteq> MergePatchType then (Some (OtherError ''unsupported patch type''), w)
      else
        (case map_of (objects w) path of
           None \<Rightarrow> (Some StatusNotFound, w)
         | Some doc \<Rightarrow>
             (None, w\<lparr>objects :=
                        AList.update path (MergePatch (parsed doc) (parsed body)) (objects w)\<rparr>)))"

definition world_client :: "world k8sClient" where
  "world_client =
     \<lparr>Namespaces_Create = world_Namespaces_Create,
      rest_Get = world_Get,
      rest_Post = world_Post,
      rest_Patch = world_Patch\<rparr>"

definition world_Logger :: "world Logger" where
  "world_Logger = \<lparr>Log = (\<lambda>v w. w\<lparr>logged := logged w @ [v]\<rparr>)\<rparr>"

definition world_tpr_New :: "world tpr_Config \<Rightarrow> ext_error + world tpr_TPR" where
  "world_tpr_New c =
     Inr \<lparr>Kind = tpr_Name c,
          APIVersion = tpr_Version c,
          Endpoint = (\<lambda>ns. ''/apis/'' @ tpr_Name c @ ''/'' @ tpr_Version c @ ''/namespaces/'' @ ns),
          CreateAndWait = world_CreateAndWait (tpr_Name c)\<rparr>"

text \<open>A storage over this store, addressing the object at the given item path.\<close>

definition world_Storage :: "string \<Rightarrow> world Storage" where
  "world_Storage ep =
     \<lparr>logger = world_Logger,
      logctx = [],
      k8sClient = world_client,
      tpr = \<lparr>Kind = ''Storage'', APIVersion = ''v1'', Endpoint = (\<lambda>ns. ''/apis/'' @ ns),
             CreateAndWait = world_CreateAndWait ''storage''\<rparr>,
      tpoEndpoint = ep,
      tpoListEndpoint = ''/apis''\<rparr>"

definition world_with :: "string \<Rightarrow> json \<Rightarrow> world" where
  "world_with ep doc = \<lparr>registered = [], namespaces = [], objects = [(ep, doc)], logged = []\<rparr>"

definition empty_world :: world where
  "empty_world = \<lparr>registered = [], namespaces = [], objects = [], logged = []\<rparr>"

text \<open>A backing object with two keys, for the examples below.\<close>

definition example_doc :: json where
  "example_doc =
     JObject [(''kind'', JString ''Storage''),
              (''data'', JObject [(''/a'', JString ''1''), (''/a/b'', JString ''2'')])]"

text \<open>A configuration with every required parameter and an empty description.\<close>

definition good_config :: "world Config" where
  "good_config =
     \<lparr>K8sClient = Some world_client,
      Logger = Some world_Logger,
      TPR = \<lparr>TPR_Name = ''tpr-storage.giantswarm.io'', TPR_Version = ''v1'',
             TPR_Description = ''''\<rparr>,
      TPO = \<lparr>TPO_Name = ''test'', TPO_Namespace = ''giantswarm''\<rparr>\<rparr>"

text \<open>
  A store in which the resource type, the namespace and the object of
  \<^const>\<open>good_config\<close> exist, and a storage whose collaborators fail every call.
\<close>

definition provisioned_world :: world where
  "provisioned_world =
     \<lparr>registered = [''storage''], namespaces = [''giantswarm''],
      objects = [(''/apis/test'', JObject [(''data'', JObject [])])], logged = []\<rparr>"

definition failing_Storage :: "world Storage" where
  "failing_Storage =
     \<lparr>logger = world_Logger,
      logctx = [],
      k8sClient =
        \<lparr>Namespaces_Create = (\<lambda>ns w. (Some (OtherError ''timeout''), w)),
         rest_Get = (\<lambda>path w. Inl (OtherError ''timeout'')),
         rest_Post = (\<lambda>path body w. (Some (OtherError ''timeout''), w)),
         rest_Patch = (\<lambda>pt path body w. (Some (OtherError ''timeout''), w))\<rparr>,
      tpr = \<lparr>Kind = ''Storage'', APIVersion = ''v1'', Endpoint = (\<lambda>ns. ''/apis/'' @ ns),
             CreateAndWait = (\<lambda>w. (Some (OtherError ''timeout''), w))\<rparr>,
      tpoEndpoint = ''/apis/test'',
      tpoListEndpoint = ''/apis''\<rparr>"

text \<open>
  A backing object whose one key is U+FFFD, and one with an entry that is no
  string.
\<close>

definition replacement_doc :: json where
  "replacement_doc = JObject [(''data'', JObject [(RuneError, JString ''x'')])]"

definition malformed_doc :: json where
  "malformed_doc = JObject [(''data'', JObject [(''/x'', JObject [])])]"

section \<open>Strings: the coercion to UTF-8\<close>

declare utf8_coerce.simps(2) [simp del]

lemma utf8_coerce_ascii [simp]:
  "of_char c < (0x80::nat) \<Longrightarrow> utf8_coerce (c # cs) = c # utf8_coerce cs"
  by (simp add: utf8_coerce.simps(2) utf8_size_def byte_def)

lemma utf8_size_RuneError: "utf8_size (RuneError @ t) = 3"
  by (simp add: utf8_size_def RuneError_def byte_def accept_lo_def accept_hi_def continuation_def)

lemma utf8_coerce_RuneError_append: "utf8_coerce (RuneError @ t) = RuneError @ utf8_coerce t"
  using utf8_size_RuneError [of t] utf8_coerce.simps(2) [of "CHR 0xEF" "[CHR 0xBF, CHR 0xBD] @ t"]
  by (simp add: RuneError_def)

lemma utf8_coerce_RuneError: "utf8_coerce RuneError = RuneError"
  using utf8_coerce_RuneError_append [of "[]"] by simp

lemma utf8_coerce_invalid_byte: "utf8_coerce [CHR 0xFF] = RuneError"
  by (simp add: utf8_coerce.simps(2) utf8_size_def byte_def)

lemma RuneError_neq_invalid_byte: "RuneError \<noteq> [CHR 0xFF]"
  by (simp add: RuneError_def)

lemma utf8_size_prefix:
  assumes "utf8_size s = n" and "0 < n"
  shows "n \<le> length s \<and> utf8_size (take n s @ t) = n"
proof -
  from assms obtain c0 cs where s: "s = c0 # cs"
    by (cases s) (auto simp: utf8_size_def)
  consider (a) "byte c0 < 0x80"
    | (x) "0x80 \<le> byte c0" "byte c0 < 0xC2"
    | (b) "0xC2 \<le> byte c0" "byte c0 \<le> 0xDF"
    | (c) "0xDF < byte c0" "byte c0 \<le> 0xEF"
    | (d) "0xEF < byte c0" "byte c0 \<le> 0xF4"
    | (y) "0xF4 < byte c0"
    by linarith
  then show ?thesis
  proof cases
    case a
    with assms show ?thesis by (auto simp: utf8_size_def s Let_def)
  next
    case x
    with assms show ?thesis by (auto simp: utf8_size_def s Let_def)
  next
    case b
    with assms obtain c1 cs1 where "cs = c1 # cs1"
      by (cases cs) (auto simp: utf8_size_def s Let_def)
    with b assms show ?thesis by (auto simp: utf8_size_def s Let_def split: if_splits)
  next
    case c
    with assms obtain c1 c2 cs2 where "cs = c1 # c2 # cs2"
      by (cases cs; cases "tl cs") (auto simp: utf8_size_def s Let_def)
    with c assms show ?thesis by (auto simp: utf8_size_def s Let_def split: if_splits)
  next
    case d
    with assms obtain c1 c2 c3 cs3 where "cs = c1 # c2 # c3 # cs3"
      by (cases cs; cases "tl cs"; cases "tl (tl cs)") (auto simp: utf8_size_def s Let_def)
    with d assms show ?thesis by (auto simp: utf8_size_def s Let_def split: if_splits)
  next
    case y
    with assms show ?thesis by (auto simp: utf8_size_def s Let_def)
  qed
qed

lemma utf8_coerce_idem [simp]: "utf8_coerce (utf8_coerce s) = utf8_coerce s"
proof (induction s rule: utf8_coerce.induct)
  case 1
  then show ?case by simp
next
  case (2 c cs)
  show ?case
  proof (cases "utf8_size (c # cs) = 0")
    case True
    with "2.IH"(1) show ?thesis
      by (simp add: utf8_coerce.simps(2) utf8_coerce_RuneError_append)
  next
    case False
    define n where "n = utf8_size (c # cs)"
    with False have n: "0 < n" by simp
    from utf8_size_prefix [OF n_def [symmetric] n] have len: "n \<le> length (c # cs)"
      and pre: "utf8_size (take n (c # cs) @ t) = n" for t by auto
    from n have tk: "take n (c # cs) = c # take (n - 1) cs" by (cases n) auto
    have "utf8_coerce (c # cs) = (c # take (n - 1) cs) @ utf8_coerce (drop (n - 1) cs)"
      using False by (simp add: utf8_coerce.simps(2) n_def)
    moreover have "utf8_coerce ((c # take (n - 1) cs) @ t) = (c # take (n - 1) cs) @ utf8_coerce t" for t
      using pre [of t] n len utf8_coerce.simps(2) [of c "take (n - 1) cs @ t"]
      by (simp add: tk)
    ultimately show ?thesis using "2.IH"(2) False by (simp add: n_def)
  qed
qed

lemma utf8_ValidString_coerce: "utf8_ValidString (utf8_coerce s)"
  by (simp add: utf8_ValidString_def)

lemma length_utf8_coerce: "length s \<le> length (utf8_coerce s)"
proof (induction s rule: utf8_coerce.induct)
  case 1
  then show ?case by simp
next
  case (2 c cs)
  show ?case
  proof (cases "utf8_size (c # cs) = 0")
    case True
    with "2.IH"(1) show ?thesis by (simp add: utf8_coerce.simps(2) RuneError_def)
  next
    case False
    with "2.IH"(2) show ?thesis by (simp add: utf8_coerce.simps(2))
  qed
qed

text \<open>
  The strings that the coercion keeps are the valid ones: every position starts
  a well-formed sequence.
\<close>

lemma utf8_ValidString_Cons:
  "utf8_ValidString (c # cs) =
     (0 < utf8_size (c # cs) \<and> utf8_ValidString (drop (utf8_size (c # cs) - 1) cs))"
proof (cases "utf8_size (c # cs) = 0")
  case True
  have "length (RuneError @ utf8_coerce cs) > length (c # cs)"
    using length_utf8_coerce [of cs] by (simp add: RuneError_def)
  then have "RuneError @ utf8_coerce cs \<noteq> c # cs" by (metis less_irrefl)
  with True show ?thesis by (simp add: utf8_ValidString_def utf8_coerce.simps(2))
next
  case False
  define n where "n = utf8_size (c # cs)"
  with False have n: "0 < n" by simp
  from utf8_size_prefix [OF n_def [symmetric] n, of "[]"] have "n - 1 \<le> length cs" by auto
  then have "(take (n - 1) cs @ r = cs) = (r = drop (n - 1) cs)" for r
    by (metis append_eq_conv_conj append_take_drop_id length_take min.absorb2)
  with False show ?thesis
    by (simp add: utf8_ValidString_def utf8_coerce.simps(2) n_def)
qed

section \<open>Documents as a decoder reads them\<close>

lemma parsed_idem [simp]:
  "parsed (parsed x) = parsed x"
  "parsed_members (parsed_members fs) = parsed_members fs"
  by (induction x and fs rule: parsed_parsed_members.induct) simp_all

lemma parsed_members_of:
  "parsed x = x \<Longrightarrow> parsed_members (members x) = members x"
  by (cases x) auto

lemma parsed_member:
  "parsed_members fs = fs \<Longrightarrow> map_of fs n = Some x \<Longrightarrow> parsed x = x"
  by (induction fs) (auto split: if_splits)

lemma parsed_name:
  "parsed_members fs = fs \<Longrightarrow> n \<in> fst ` set fs \<Longrightarrow> utf8_coerce n = n"
  by (induction fs) force+

lemma parsed_members_update:
  "parsed_members fs = fs \<Longrightarrow> utf8_coerce n = n \<Longrightarrow> parsed v = v \<Longrightarrow>
   parsed_members (AList.update n v fs) = AList.update n v fs"
  by (induction fs) auto

lemma parsed_members_delete:
  "parsed_members fs = fs \<Longrightarrow> parsed_members (AList.delete n fs) = AList.delete n fs"
  by (induction fs) auto

section \<open>Create and Put\<close>

lemma Create_returns_nil: "fst (Create s key val w) = None"
  by (simp add: Create_def split: prod.splits option.splits)

text \<open>
  C1. \<^verbatim>\<open>Create\<close> is said to return what \<^verbatim>\<open>Put\<close> returns. On a store without the
  backing object \<^verbatim>\<open>Put\<close> returns the "not found" error of the patch request, and
  \<^verbatim>\<open>Create\<close> with the same arguments returns \<^verbatim>\<open>nil\<close>.
\<close>

theorem Create_drops_the_error_of_Put:
  "fst (Put (world_Storage ''/o'') ''k'' ''v'' empty_world) = Some (External StatusNotFound)
   \<and> fst (Create (world_Storage ''/o'') ''k'' ''v'' empty_world) = None"
  by (simp add: Put_def Create_def marshal_Put_body_def world_Storage_def world_client_def
      world_Patch_def empty_world_def)

section \<open>List\<close>

text \<open>
  C3. \<^verbatim>\<open>List\<close> is said not to fault when a key of the data map equals the prefix.
  With the data map \<^verbatim>\<open>{"/foo": "a"}\<close>, \<^verbatim>\<open>List("/foo")\<close> evaluates the slice
  \<^verbatim>\<open>k[5:]\<close> of a string of length 4 and panics.
\<close>

theorem List_panics_on_exact_match:
  "List (world_Storage ''/o'') ''/foo''
     (world_with ''/o'' (JObject [(''data'', JObject [(''/foo'', JString ''a'')])]))
   = Inl panic_slice_bounds_out_of_range"
  by (simp add: List_def getData_def world_Storage_def world_client_def world_Get_def
      world_with_def unmarshal_customObject_def)

text \<open>
  C2. \<^verbatim>\<open>List\<close> is said to select the keys equal to the prefix or below it and to
  give each one's remainder. On the example of the spec, the data map
  \<^verbatim>\<open>{"/foo": "a", "/foo/bar": "b", "/foobar": "c"}\<close> and the prefix \<^verbatim>\<open>/foo\<close>, the
  result is no list: the key \<^verbatim>\<open>/foo\<close> is selected and the slice of its remainder
  panics.
\<close>

theorem List_spec_example_panics:
  "List (world_Storage ''/o'') ''/foo''
     (world_with ''/o''
        (JObject [(''data'', JObject [(''/foo'', JString ''a''), (''/foo/bar'', JString ''b''),
                                      (''/foobar'', JString ''c'')])]))
   = Inl panic_slice_bounds_out_of_range"
  by (simp add: List_def getData_def world_Storage_def world_client_def world_Get_def
      world_with_def unmarshal_customObject_def)

section \<open>Search\<close>

lemma getData_error_External: "getData s w = Inl e \<Longrightarrow> \<exists>x. e = External x"
  by (auto simp: getData_def split: sum.splits)

lemma getData_example:
  "getData (world_Storage ''/o'') (world_with ''/o'' example_doc)
   = Inr [(''/a'', ''1''), (''/a/b'', ''2'')]"
  by (simp add: getData_def world_Storage_def world_client_def world_Get_def
      world_with_def unmarshal_customObject_def example_doc_def)

lemma getData_empty_world:
  "getData (world_Storage ''/o'') empty_world = Inl (External StatusNotFound)"
  by (simp add: getData_def world_Storage_def world_client_def world_Get_def empty_world_def)

text \<open>
  C4. For every storage, store state and key: when the fetch and the decoding of
  the backing object succeed, \<^verbatim>\<open>Search\<close> returns the value of a key that is an
  entry of the data map and the error \<^verbatim>\<open>notFoundError\<close> (no string) for a key
  that is none; when they fail, \<^verbatim>\<open>Search\<close> returns their error, which is never
  \<^verbatim>\<open>notFoundError\<close>.
\<close>

theorem Search_value_or_notFound:
  "(\<forall>data. getData s w = Inr data \<longrightarrow>
      (\<forall>v. map_of data key = Some v \<longrightarrow> Search s key w = Inr v) \<and>
      (map_of data key = None \<longrightarrow> Search s key w = Inl notFoundError))
   \<and> (\<forall>e. getData s w = Inl e \<longrightarrow> Search s key w = Inl e \<and> e \<noteq> notFoundError)"
  by (auto simp: Search_def dest: getData_error_External)

theorem Search_value_or_notFound_witness:
  "Search (world_Storage ''/o'') ''/a'' (world_with ''/o'' example_doc) = Inr ''1''
   \<and> Search (world_Storage ''/o'') ''/c'' (world_with ''/o'' example_doc) = Inl notFoundError
   \<and> Search (world_Storage ''/o'') ''/a'' empty_world = Inl (External StatusNotFound)"
  using Search_value_or_notFound [of "world_Storage ''/o''" "world_with ''/o'' example_doc" "''/a''"]
    Search_value_or_notFound [of "world_Storage ''/o''" "world_with ''/o'' example_doc" "''/c''"]
    Search_value_or_notFound [of "world_Storage ''/o''" empty_world "''/a''"]
  by (simp add: getData_example getData_empty_world)

text \<open>
  The \<^verbatim>\<open>Search\<close> of the earlier variant returns the empty string with no error
  for an absent key.
\<close>

lemma legacy_Search_absent_key:
  "legacy_getData s w = Inr data \<Longrightarrow> map_of data key = None \<Longrightarrow> legacy_Search s key w = Inr ''''"
  by (simp add: legacy_Search_def)

section \<open>Construction: the configuration\<close>

lemma createTPR_error_External: "createTPR s w = (Some e, w1) \<Longrightarrow> \<exists>x. e = External x"
  by (auto simp: createTPR_def split: prod.splits if_splits option.splits)

lemma createNamespace_error_External:
  "createNamespace s config w = (Some e, w1) \<Longrightarrow> \<exists>x. e = External x"
  by (auto simp: createNamespace_def Let_def split: prod.splits if_splits option.splits)

lemma createTPO_error_External:
  "createTPO s config w = (Some e, w1) \<Longrightarrow> \<exists>x. e = External x"
  by (auto simp: createTPO_def Let_def split: prod.splits if_splits option.splits sum.splits)

lemma New_missing_parameter:
  assumes "K8sClient config = None \<or> Logger config = None \<or> TPR_Name (TPR config) = '''' \<or>
      TPR_Version (TPR config) = '''' \<or> TPO_Name (TPO config) = ''''"
  shows "New tpr_New config w = (Inl invalidConfigError, w)"
  using assms by (auto simp: New_def split: option.splits)

lemma New_no_missing_parameter:
  assumes c: "K8sClient config = Some client" "Logger config = Some lg"
    and n: "TPR_Name (TPR config) \<noteq> ''''" "TPR_Version (TPR config) \<noteq> ''''"
      "TPO_Name (TPO config) \<noteq> ''''"
  shows "fst (New tpr_New config w) \<noteq> Inl invalidConfigError"
  using c n
  by (auto simp: New_def Let_def split: sum.splits prod.splits option.splits
      dest: createTPR_error_External createNamespace_error_External createTPO_error_External)

text \<open>
  C9. For every configuration, constructor of the resource type and store state,
  \<^verbatim>\<open>New\<close> returns the error \<^verbatim>\<open>invalidConfigError\<close> (and with it no storage) exactly
  when the store client is \<^verbatim>\<open>nil\<close>, the logger is \<^verbatim>\<open>nil\<close>, or the name or the
  version of the resource type or the name of the object is empty; the
  description is no part of the condition. When it does, it has made no request:
  the store state is the one it was called in.
\<close>

theorem New_invalidConfig_iff:
  "(fst (New tpr_New config w) = Inl invalidConfigError) =
     (K8sClient config = None \<or> Logger config = None \<or> TPR_Name (TPR config) = '''' \<or>
      TPR_Version (TPR config) = '''' \<or> TPO_Name (TPO config) = '''')
   \<and> (fst (New tpr_New config w) = Inl invalidConfigError \<longrightarrow> snd (New tpr_New config w) = w)"
proof (cases "K8sClient config = None \<or> Logger config = None \<or> TPR_Name (TPR config) = '''' \<or>
      TPR_Version (TPR config) = '''' \<or> TPO_Name (TPO config) = ''''")
  case True
  from New_missing_parameter [OF True, of tpr_New w] True show ?thesis by simp
next
  case False
  then obtain client lg where "K8sClient config = Some client" "Logger config = Some lg"
    "TPR_Name (TPR config) \<noteq> ''''" "TPR_Version (TPR config) \<noteq> ''''"
    "TPO_Name (TPO config) \<noteq> ''''"
    by auto
  from New_no_missing_parameter [OF this, of tpr_New w] False show ?thesis by simp
qed

theorem New_invalidConfig_iff_witness:
  "fst (New world_tpr_New
          (DefaultConfig\<lparr>K8sClient := Some world_client, Logger := Some world_Logger\<rparr>) empty_world)
     = Inl invalidConfigError
   \<and> snd (New world_tpr_New
          (DefaultConfig\<lparr>K8sClient := Some world_client, Logger := Some world_Logger\<rparr>) empty_world)
     = empty_world
   \<and> fst (New world_tpr_New good_config empty_world) \<noteq> Inl invalidConfigError"
  using New_invalidConfig_iff [of world_tpr_New
      "DefaultConfig\<lparr>K8sClient := Some world_client, Logger := Some world_Logger\<rparr>" empty_world]
    New_invalidConfig_iff [of world_tpr_New good_config empty_world]
  by (simp add: good_config_def DefaultConfig_def)

section \<open>Construction: provisioning\<close>

lemma createTPR_AlreadyExists:
  "CreateAndWait (tpr s) w = (Some TPRAlreadyExists, w1) \<Longrightarrow>
   createTPR s w = (None, Log (logger s) [''debug'', ''TPR already exists''] w1)"
  by (simp add: createTPR_def tpr_IsAlreadyExists_def)

lemma createTPR_other_error:
  "CreateAndWait (tpr s) w = (Some e, w1) \<Longrightarrow> e \<noteq> TPRAlreadyExists \<Longrightarrow>
   createTPR s w = (Some (External e), w1)"
  by (simp add: createTPR_def tpr_IsAlreadyExists_def)

lemma createNamespace_AlreadyExists:
  "Namespaces_Create (k8sClient s) (TPO_Namespace (TPO config)) w = (Some StatusAlreadyExists, w1) \<Longrightarrow>
   createNamespace s config w =
     (None, Log (logger s)
        [''debug'', ''namespace '' @ TPO_Namespace (TPO config) @ '' already exists''] w1)"
  by (simp add: createNamespace_def errors_IsAlreadyExists_def)

lemma createNamespace_other_error:
  "Namespaces_Create (k8sClient s) (TPO_Namespace (TPO config)) w = (Some e, w1) \<Longrightarrow>
   e \<noteq> StatusAlreadyExists \<Longrightarrow> createNamespace s config w = (Some (External e), w1)"
  by (simp add: createNamespace_def errors_IsAlreadyExists_def)

lemma createTPO_AlreadyExists:
  "marshal_customObject (newTPO s config) = Inr body \<Longrightarrow>
   rest_Post (k8sClient s) (tpoListEndpoint s) body w = (Some StatusAlreadyExists, w1) \<Longrightarrow>
   createTPO s config w =
     (None, Log (logger s) [''debug'', ''TPO '' @ TPO_Name (TPO config) @ '' already exists''] w1)"
  by (simp add: createTPO_def errors_IsAlreadyExists_def newTPO_def)

lemma createTPO_other_error:
  "marshal_customObject (newTPO s config) = Inr body \<Longrightarrow>
   rest_Post (k8sClient s) (tpoListEndpoint s) body w = (Some e, w1) \<Longrightarrow>
   e \<noteq> StatusAlreadyExists \<Longrightarrow> createTPO s config w = (Some (External e), w1)"
  by (simp add: createTPO_def errors_IsAlreadyExists_def newTPO_def)

lemma New_steps:
  assumes "K8sClient config = Some client" "Logger config = Some lg"
    "TPR_Name (TPR config) \<noteq> ''''" "TPR_Version (TPR config) \<noteq> ''''" "TPO_Name (TPO config) \<noteq> ''''"
    "tpr_New (tprConfig (defaultNamespace config) client lg) = Inr t"
  shows "New tpr_New config w =
     (let cfg = defaultNamespace config; s = newStorage cfg client lg t in
      case createTPR s w of
        (Some e, w1) \<Rightarrow> (Inl e, w1)
      | (None, w1) \<Rightarrow>
          (case createNamespace s cfg w1 of
             (Some e, w2) \<Rightarrow> (Inl e, w2)
           | (None, w2) \<Rightarrow>
               (case createTPO s cfg w2 of
                  (Some e, w3) \<Rightarrow> (Inl e, w3)
                | (None, w3) \<Rightarrow> (Inr s, w3))))"
  using assms by (simp add: New_def Let_def)

lemma world_createTPR:
  assumes "CreateAndWait (tpr s) = world_CreateAndWait name"
    and "logger s = Logger_With kv world_Logger"
  shows "fst (createTPR s w) = None
    \<and> registered (snd (createTPR s w)) =
        (if name \<in> set (registered w) then registered w else name # registered w)
    \<and> namespaces (snd (createTPR s w)) = namespaces w
    \<and> objects (snd (createTPR s w)) = objects w"
  using assms
  by (simp add: createTPR_def world_CreateAndWait_def tpr_IsAlreadyExists_def Logger_With_def
      world_Logger_def)

lemma world_createNamespace:
  assumes "k8sClient s = world_client" and "logger s = Logger_With kv world_Logger"
  shows "fst (createNamespace s config w) = None
    \<and> registered (snd (createNamespace s config w)) = registered w
    \<and> namespaces (snd (createNamespace s config w)) =
        (if TPO_Namespace (TPO config) \<in> set (namespaces w) then namespaces w
         else TPO_Namespace (TPO config) # namespaces w)
    \<and> objects (snd (createNamespace s config w)) = objects w"
  using assms
  by (simp add: createNamespace_def world_client_def world_Namespaces_Create_def
      errors_IsAlreadyExists_def Logger_With_def world_Logger_def Let_def)

lemma object_name_newTPO:
  "marshal_customObject (newTPO s config) = Inr body \<Longrightarrow>
   object_name (parsed body) = utf8_coerce (TPO_Name (TPO config))"
  by (auto simp: marshal_customObject_def newTPO_def object_name_def)

lemma world_createTPO:
  assumes "k8sClient s = world_client" and "logger s = Logger_With kv world_Logger"
    and "marshal_customObject (newTPO s config) = Inr body"
  shows "fst (createTPO s config w) = None
    \<and> registered (snd (createTPO s config w)) = registered w
    \<and> namespaces (snd (createTPO s config w)) = namespaces w
    \<and> objects (snd (createTPO s config w)) =
        (case map_of (objects w) (tpoListEndpoint s @ ''/'' @ utf8_coerce (TPO_Name (TPO config))) of
           Some doc \<Rightarrow> objects w
         | None \<Rightarrow>
             AList.update (tpoListEndpoint s @ ''/'' @ utf8_coerce (TPO_Name (TPO config)))
               (parsed body) (objects w))"
  using assms object_name_newTPO [OF assms(3)]
  by (simp add: createTPO_def world_client_def world_Post_def
      errors_IsAlreadyExists_def Logger_With_def world_Logger_def Let_def split: option.splits)

lemma world_createTPR_again:
  assumes "CreateAndWait (tpr s) = world_CreateAndWait name"
    and "logger s = Logger_With kv world_Logger"
    and "name \<in> set (registered w)"
  shows "createTPR s w = (None, w\<lparr>logged := logged w @ [[''debug'', ''TPR already exists''] @ kv]\<rparr>)"
  using assms
  by (simp add: createTPR_def world_CreateAndWait_def tpr_IsAlreadyExists_def Logger_With_def
      world_Logger_def)

lemma world_createNamespace_again:
  assumes "k8sClient s = world_client" and "logger s = Logger_With kv world_Logger"
    and "TPO_Namespace (TPO config) \<in> set (namespaces w)"
  shows "createNamespace s config w =
    (None, w\<lparr>logged := logged w @
       [[''debug'', ''namespace '' @ TPO_Namespace (TPO config) @ '' already exists''] @ kv]\<rparr>)"
  using assms
  by (simp add: createNamespace_def world_client_def world_Namespaces_Create_def
      errors_IsAlreadyExists_def Logger_With_def world_Logger_def Let_def)

lemma world_createTPO_again:
  assumes "k8sClient s = world_client" and "logger s = Logger_With kv world_Logger"
    and "map_of (objects w) (tpoListEndpoint s @ ''/'' @ utf8_coerce (TPO_Name (TPO config)))
         = Some doc"
  shows "createTPO s config w =
    (None, w\<lparr>logged := logged w @
       [[''debug'', ''TPO '' @ TPO_Name (TPO config) @ '' already exists''] @ kv]\<rparr>)"
  using assms object_name_newTPO [of s config]
  by (simp add: createTPO_def world_client_def world_Post_def marshal_customObject_def
      errors_IsAlreadyExists_def Logger_With_def world_Logger_def Let_def newTPO_def)

lemma New_world_twice:
  assumes c: "K8sClient config = Some world_client" "Logger config = Some world_Logger"
    and n: "TPR_Name (TPR config) \<noteq> ''''" "TPR_Version (TPR config) \<noteq> ''''"
      "TPO_Name (TPO config) \<noteq> ''''"
  shows "\<exists>s w'. New world_tpr_New config w = (Inr s, w')
     \<and> New world_tpr_New config w' =
         (Inr s, w'\<lparr>logged := logged w' @
            map (\<lambda>line. [''debug'', line] @
                   [''tprName'', TPR_Name (TPR config), ''tprVersion'', TPR_Version (TPR config),
                    ''tpoName'', TPO_Name (TPO config),
                    ''tpoNamespace'', TPO_Namespace (TPO (defaultNamespace config))])
              [''TPR already exists'',
               ''namespace '' @ TPO_Namespace (TPO (defaultNamespace config)) @ '' already exists'',
               ''TPO '' @ TPO_Name (TPO config) @ '' already exists'']\<rparr>)"
proof -
  define cfg where "cfg = defaultNamespace config"
  define kv where "kv = [''tprName'', TPR_Name (TPR config), ''tprVersion'', TPR_Version (TPR config),
                    ''tpoName'', TPO_Name (TPO config), ''tpoNamespace'', TPO_Namespace (TPO cfg)]"
  have cfg: "TPR cfg = TPR config" "TPO_Name (TPO cfg) = TPO_Name (TPO config)"
    by (simp_all add: cfg_def defaultNamespace_def)
  obtain t where t: "world_tpr_New (tprConfig cfg world_client world_Logger) = Inr t"
    and tc: "CreateAndWait t = world_CreateAndWait (TPR_Name (TPR config))"
    by (simp add: world_tpr_New_def tprConfig_def cfg)
  define s where "s = newStorage cfg world_client world_Logger t"
  have s: "k8sClient s = world_client" "logger s = Logger_With kv world_Logger"
    "CreateAndWait (tpr s) = world_CreateAndWait (TPR_Name (TPR config))"
    by (simp_all add: s_def newStorage_def kv_def cfg tc)
  obtain body where body: "marshal_customObject (newTPO s cfg) = Inr body"
    by (simp add: marshal_customObject_def)
  define item where "item = tpoListEndpoint s @ ''/'' @ utf8_coerce (TPO_Name (TPO cfg))"
  have steps: "New world_tpr_New config v =
     (case createTPR s v of
        (Some e, w1) \<Rightarrow> (Inl e, w1)
      | (None, w1) \<Rightarrow>
          (case createNamespace s cfg w1 of
             (Some e, w2) \<Rightarrow> (Inl e, w2)
           | (None, w2) \<Rightarrow>
               (case createTPO s cfg w2 of
                  (Some e, w3) \<Rightarrow> (Inl e, w3)
                | (None, w3) \<Rightarrow> (Inr s, w3))))" for v
    unfolding s_def cfg_def
    using New_steps [of config world_client world_Logger world_tpr_New t v] c n t [unfolded cfg_def]
    by (simp add: Let_def)
  define w1 where "w1 = snd (createTPR s w)"
  define w2 where "w2 = snd (createNamespace s cfg w1)"
  define w3 where "w3 = snd (createTPO s cfg w2)"
  have r1: "createTPR s w = (None, w1)"
    using world_createTPR [OF s(3) s(2), of w] by (simp add: w1_def prod_eq_iff)
  have r2: "createNamespace s cfg w1 = (None, w2)"
    using world_createNamespace [OF s(1) s(2), of cfg w1] by (simp add: w2_def prod_eq_iff)
  have r3: "createTPO s cfg w2 = (None, w3)"
    using world_createTPO [OF s(1) s(2) body, of w2] by (simp add: w3_def prod_eq_iff)
  have first: "New world_tpr_New config w = (Inr s, w3)"
    by (simp add: steps r1 r2 r3)
  have reg: "TPR_Name (TPR config) \<in> set (registered w3)"
    using world_createTPR [OF s(3) s(2), of w] world_createNamespace [OF s(1) s(2), of cfg w1]
      world_createTPO [OF s(1) s(2) body, of w2]
    by (simp add: w1_def [symmetric] w2_def [symmetric] w3_def [symmetric] split: if_splits)
  have ns: "TPO_Namespace (TPO cfg) \<in> set (namespaces w3)"
    using world_createNamespace [OF s(1) s(2), of cfg w1] world_createTPO [OF s(1) s(2) body, of w2]
    by (simp add: w2_def [symmetric] w3_def [symmetric] split: if_splits)
  have "map_of (objects w3) item \<noteq> None"
    using world_createTPO [OF s(1) s(2) body, of w2]
    by (simp add: w3_def [symmetric] item_def cfg update_conv' split: option.splits)
  then obtain doc where obj: "map_of (objects w3) item = Some doc" by auto
  define v1 where "v1 = w3\<lparr>logged := logged w3 @ [[''debug'', ''TPR already exists''] @ kv]\<rparr>"
  define v2 where "v2 = v1\<lparr>logged := logged v1 @
       [[''debug'', ''namespace '' @ TPO_Namespace (TPO cfg) @ '' already exists''] @ kv]\<rparr>"
  have q1: "createTPR s w3 = (None, v1)"
    using world_createTPR_again [OF s(3) s(2) reg] by (simp add: v1_def)
  have q2: "createNamespace s cfg v1 = (None, v2)"
    using world_createNamespace_again [OF s(1) s(2), of cfg v1] ns by (simp add: v1_def v2_def)
  have q3: "createTPO s cfg v2 =
      (None, v2\<lparr>logged := logged v2 @
         [[''debug'', ''TPO '' @ TPO_Name (TPO cfg) @ '' already exists''] @ kv]\<rparr>)"
    using world_createTPO_again [OF s(1) s(2), of v2 cfg doc] obj
    by (simp add: v1_def v2_def item_def)
  have second: "New world_tpr_New config w3 =
      (Inr s, v2\<lparr>logged := logged v2 @
         [[''debug'', ''TPO '' @ TPO_Name (TPO cfg) @ '' already exists''] @ kv]\<rparr>)"
    by (simp add: steps q1 q2 q3)
  show ?thesis
    using first second
    by (auto simp: v1_def v2_def kv_def cfg cfg_def [symmetric])
qed

text \<open>
  C10. Each provisioning block of \<^verbatim>\<open>New\<close> (resource type, namespace, backing
  object) turns the "already exists" answer of its collaborator into success and
  logs it; any other error of the collaborator is the block's error. For a
  configuration with every required parameter, \<^verbatim>\<open>New\<close> returns the error of the
  first block that has one and the storage when none has. On the store of this
  theory, \<^verbatim>\<open>New\<close> run a second time in the state the first run left returns the
  same storage and changes nothing but the log, where it writes the three
  "already exists" lines.
\<close>

theorem provisioning_already_exists_is_success:
  "(CreateAndWait (tpr s) w = (Some TPRAlreadyExists, wa) \<longrightarrow>
      createTPR s w = (None, Log (logger s) [''debug'', ''TPR already exists''] wa))
   \<and> (\<forall>e. CreateAndWait (tpr s) w = (Some e, wa) \<and> e \<noteq> TPRAlreadyExists \<longrightarrow>
          createTPR s w = (Some (External e), wa))
   \<and> (Namespaces_Create (k8sClient s) (TPO_Namespace (TPO config)) w = (Some StatusAlreadyExists, wa) \<longrightarrow>
        createNamespace s config w =
          (None, Log (logger s)
             [''debug'', ''namespace '' @ TPO_Namespace (TPO config) @ '' already exists''] wa))
   \<and> (\<forall>e. Namespaces_Create (k8sClient s) (TPO_Namespace (TPO config)) w = (Some e, wa)
          \<and> e \<noteq> StatusAlreadyExists \<longrightarrow>
          createNamespace s config w = (Some (External e), wa))
   \<and> (\<forall>body. marshal_customObject (newTPO s config) = Inr body
          \<and> rest_Post (k8sClient s) (tpoListEndpoint s) body w = (Some StatusAlreadyExists, wa) \<longrightarrow>
          createTPO s config w =
            (None, Log (logger s)
               [''debug'', ''TPO '' @ TPO_Name (TPO config) @ '' already exists''] wa))
   \<and> (\<forall>body e. marshal_customObject (newTPO s config) = Inr body
          \<and> rest_Post (k8sClient s) (tpoListEndpoint s) body w = (Some e, wa)
          \<and> e \<noteq> StatusAlreadyExists \<longrightarrow>
          createTPO s config w = (Some (External e), wa))
   \<and> (K8sClient config0 = Some client \<and> Logger config0 = Some lg
        \<and> TPR_Name (TPR config0) \<noteq> '''' \<and> TPR_Version (TPR config0) \<noteq> ''''
        \<and> TPO_Name (TPO config0) \<noteq> ''''
        \<and> tpr_New (tprConfig (defaultNamespace config0) client lg) = Inr t \<longrightarrow>
        New tpr_New config0 wb =
          (let cfg = defaultNamespace config0; s0 = newStorage cfg client lg t in
           case createTPR s0 wb of
             (Some e, w1) \<Rightarrow> (Inl e, w1)
           | (None, w1) \<Rightarrow>
               (case createNamespace s0 cfg w1 of
                  (Some e, w2) \<Rightarrow> (Inl e, w2)
                | (None, w2) \<Rightarrow>
                    (case createTPO s0 cfg w2 of
                       (Some e, w3) \<Rightarrow> (Inl e, w3)
                     | (None, w3) \<Rightarrow> (Inr s0, w3)))))
   \<and> (K8sClient wconfig = Some world_client \<and> Logger wconfig = Some world_Logger
        \<and> TPR_Name (TPR wconfig) \<noteq> '''' \<and> TPR_Version (TPR wconfig) \<noteq> ''''
        \<and> TPO_Name (TPO wconfig) \<noteq> '''' \<longrightarrow>
        (\<exists>s' w'. New world_tpr_New wconfig ww = (Inr s', w')
           \<and> New world_tpr_New wconfig w' =
               (Inr s', w'\<lparr>logged := logged w' @
                  map (\<lambda>line. [''debug'', line] @
                         [''tprName'', TPR_Name (TPR wconfig),
                          ''tprVersion'', TPR_Version (TPR wconfig),
                          ''tpoName'', TPO_Name (TPO wconfig),
                          ''tpoNamespace'', TPO_Namespace (TPO (defaultNamespace wconfig))])
                    [''TPR already exists'',
                     ''namespace '' @ TPO_Namespace (TPO (defaultNamespace wconfig)) @
                       '' already exists'',
                     ''TPO '' @ TPO_Name (TPO wconfig) @ '' already exists'']\<rparr>)))"
  apply (intro conjI allI impI)
  subgoal by (rule createTPR_AlreadyExists)
  subgoal by (simp add: createTPR_other_error)
  subgoal by (rule createNamespace_AlreadyExists)
  subgoal by (simp add: createNamespace_other_error)
  subgoal by (simp add: createTPO_AlreadyExists)
  subgoal by (simp add: createTPO_other_error)
  subgoal using New_steps [of config0 client lg tpr_New t wb] by blast
  subgoal using New_world_twice [of wconfig ww] by blast
  done

theorem provisioning_already_exists_is_success_witness:
  "createTPR (world_Storage ''/apis/test'') provisioned_world
     = (None, provisioned_world\<lparr>logged := [[''debug'', ''TPR already exists'']]\<rparr>)
   \<and> createNamespace (world_Storage ''/apis/test'') good_config provisioned_world
     = (None, provisioned_world\<lparr>logged := [[''debug'', ''namespace giantswarm already exists'']]\<rparr>)
   \<and> createTPO (world_Storage ''/apis/test'') good_config provisioned_world
     = (None, provisioned_world\<lparr>logged := [[''debug'', ''TPO test already exists'']]\<rparr>)
   \<and> createTPR failing_Storage empty_world = (Some (External (OtherError ''timeout'')), empty_world)
   \<and> createNamespace failing_Storage good_config empty_world
     = (Some (External (OtherError ''timeout'')), empty_world)
   \<and> createTPO failing_Storage good_config empty_world
     = (Some (External (OtherError ''timeout'')), empty_world)
   \<and> New (\<lambda>c. Inr (tpr failing_Storage)) good_config empty_world
     = (Inl (External (OtherError ''timeout'')), empty_world)
   \<and> (\<exists>s' w'. New world_tpr_New good_config empty_world = (Inr s', w')
         \<and> New world_tpr_New good_config w' =
             (Inr s', w'\<lparr>logged := logged w' @
                [[''debug'', ''TPR already exists'', ''tprName'', ''tpr-storage.giantswarm.io'',
                  ''tprVersion'', ''v1'', ''tpoName'', ''test'', ''tpoNamespace'', ''giantswarm''],
                 [''debug'', ''namespace giantswarm already exists'', ''tprName'',
                  ''tpr-storage.giantswarm.io'', ''tprVersion'', ''v1'', ''tpoName'', ''test'',
                  ''tpoNamespace'', ''giantswarm''],
                 [''debug'', ''TPO test already exists'', ''tprName'', ''tpr-storage.giantswarm.io'',
                  ''tprVersion'', ''v1'', ''tpoName'', ''test'', ''tpoNamespace'', ''giantswarm'']]\<rparr>))"
  using provisioning_already_exists_is_success
      [where s = "world_Storage ''/apis/test''" and w = provisioned_world and wa = provisioned_world
         and config = good_config and config0 = good_config and client = world_client
         and lg = world_Logger and tpr_New = "\<lambda>c. Inr (tpr failing_Storage)"
         and t = "tpr failing_Storage" and wb = empty_world
         and wconfig = good_config and ww = empty_world]
    provisioning_already_exists_is_success
      [where s = failing_Storage and w = empty_world and wa = empty_world
         and config = good_config and config0 = good_config and client = world_client
         and lg = world_Logger and tpr_New = "\<lambda>c. Inr (tpr failing_Storage)"
         and t = "tpr failing_Storage" and wb = empty_world
         and wconfig = good_config and ww = empty_world]
  by (simp add: good_config_def provisioned_world_def failing_Storage_def empty_world_def
      world_Storage_def world_client_def world_Logger_def world_CreateAndWait_def
      world_Namespaces_Create_def world_Post_def marshal_customObject_def newTPO_def
      object_name_def defaultNamespace_def newStorage_def createTPR_def tpr_IsAlreadyExists_def
      Logger_With_def)

section \<open>Put, Delete and the reads that follow\<close>

subsection \<open>Decoding a patched object\<close>

lemma map_of_Cons_delete: "map_of ((k, s) # AList.delete k m) = (map_of m)(k \<mapsto> s)"
  by (simp add: delete_conv')

lemma unmarshal_entries_valid_keys:
  "unmarshal_entries fs = Inr m \<Longrightarrow> k \<in> fst ` set m \<Longrightarrow> utf8_coerce k = k"
proof (induction fs arbitrary: m)
  case Nil
  then show ?case by simp
next
  case (Cons a fs)
  obtain k' v' where a: "a = (k', v')" by (cases a)
  from Cons.prems(1) a obtain s' m0 where m0: "unmarshal_entries fs = Inr m0"
    and m: "m = (utf8_coerce k', s') # AList.delete (utf8_coerce k') m0"
    by (auto split: sum.splits)
  have "set (AList.delete (utf8_coerce k') m0) \<subseteq> set m0"
    by (auto simp: AList.delete_eq)
  with Cons.prems(2) m have "k = utf8_coerce k' \<or> k \<in> fst ` set m0" by auto
  with Cons.IH [OF m0] show ?case by auto
qed

lemma unmarshal_entries_update:
  assumes "parsed_members fs = fs" and "utf8_coerce k = k" and "unmarshal_entries fs = Inr m"
  shows "\<exists>m'. unmarshal_entries (AList.update k (JString v) fs) = Inr m'
           \<and> map_of m' = (map_of m)(k \<mapsto> utf8_coerce v)"
  using assms(1,3)
proof (induction fs arbitrary: m)
  case Nil
  with assms(2) show ?case by (auto simp: delete_conv')
next
  case (Cons a fs)
  obtain k' v' where a: "a = (k', v')" by (cases a)
  from Cons.prems(1) a have k': "utf8_coerce k' = k'" and fs: "parsed_members fs = fs" by auto
  from Cons.prems(2) a k' obtain s' m0 where s': "unmarshal_string (Some v') = Inr s'"
    and m0: "unmarshal_entries fs = Inr m0" and m: "m = (k', s') # AList.delete k' m0"
    by (auto split: sum.splits)
  show ?case
  proof (cases "k = k'")
    case True
    then show ?thesis using a s' m0 m k' by (auto simp: delete_conv' fun_eq_iff)
  next
    case False
    from Cons.IH [OF fs m0] obtain m1 where
      m1: "unmarshal_entries (AList.update k (JString v) fs) = Inr m1"
      and mm: "map_of m1 = (map_of m0)(k \<mapsto> utf8_coerce v)" by blast
    from False show ?thesis using a s' m m1 mm k' by (auto simp: delete_conv' fun_upd_twist)
  qed
qed

lemma unmarshal_entries_delete:
  assumes "parsed_members fs = fs" and "unmarshal_entries fs = Inr m"
  shows "\<exists>m'. unmarshal_entries (AList.delete k fs) = Inr m' \<and> map_of m' = (map_of m)(k := None)"
  using assms
proof (induction fs arbitrary: m)
  case Nil
  then show ?case by auto
next
  case (Cons a fs)
  obtain k' v' where a: "a = (k', v')" by (cases a)
  from Cons.prems(1) a have k': "utf8_coerce k' = k'" and fs: "parsed_members fs = fs" by auto
  from Cons.prems(2) a k' obtain s' m0 where s': "unmarshal_string (Some v') = Inr s'"
    and m0: "unmarshal_entries fs = Inr m0" and m: "m = (k', s') # AList.delete k' m0"
    by (auto split: sum.splits)
  from Cons.IH [OF fs m0] obtain m1 where m1: "unmarshal_entries (AList.delete k fs) = Inr m1"
    and mm: "map_of m1 = (map_of m0)(k := None)" by blast
  show ?case
  proof (cases "k = k'")
    case True
    then show ?thesis using a m m1 mm by (auto simp: delete_conv' fun_eq_iff)
  next
    case False
    then show ?thesis using a s' m m1 mm k' by (auto simp: delete_conv' fun_upd_twist)
  qed
qed

lemma unmarshal_entries_keys:
  assumes "parsed_members fs = fs" and "unmarshal_entries fs = Inr m"
  shows "fst ` set m = fst ` set fs"
  using assms
proof (induction fs arbitrary: m)
  case Nil
  then show ?case by auto
next
  case (Cons a fs)
  obtain k' v' where a: "a = (k', v')" by (cases a)
  from Cons.prems(1) a have k': "utf8_coerce k' = k'" and fs: "parsed_members fs = fs" by auto
  from Cons.prems(2) a k' obtain s' m0 where m0: "unmarshal_entries fs = Inr m0"
    and m: "m = (k', s') # AList.delete k' m0"
    by (auto split: sum.splits)
  have "fst ` set (AList.delete k' m0) = fst ` set m0 - {k'}"
    by (simp add: AList.delete_eq) force
  with Cons.IH [OF fs m0] a m show ?case by auto
qed

lemma MergePatch_Put_body:
  "MergePatch doc (JObject [(''data'', JObject [(k, JString v)])]) =
     JObject (AList.update ''data''
       (JObject (AList.update k (JString v)
          (members (case map_of (members doc) ''data'' of Some x \<Rightarrow> x | None \<Rightarrow> JNull))))
       (members doc))"
  by simp

lemma MergePatch_Delete_body:
  "MergePatch doc (JObject [(''data'', JObject [(k, JNull)])]) =
     JObject (AList.update ''data''
       (JObject (AList.delete k
          (members (case map_of (members doc) ''data'' of Some x \<Rightarrow> x | None \<Rightarrow> JNull))))
       (members doc))"
  by simp

lemma unmarshal_map_entries:
  "unmarshal_map x = Inr d \<Longrightarrow>
   unmarshal_entries (members (case x of Some y \<Rightarrow> y | None \<Rightarrow> JNull)) = Inr d"
  by (cases x rule: unmarshal_map.cases) auto

lemma unmarshal_customObject_data:
  "unmarshal_customObject doc = Inr obj \<Longrightarrow>
   unmarshal_map (map_of (members doc) ''data'') = Inr (Data obj)"
  by (auto simp: unmarshal_customObject_def Let_def split: json.splits sum.splits option.splits)

lemma unmarshal_customObject_data_update:
  assumes "unmarshal_customObject doc = Inr obj" and "unmarshal_entries dfs = Inr d'"
  shows "unmarshal_customObject (JObject (AList.update ''data'' (JObject dfs) (members doc)))
         = Inr (obj\<lparr>Data := d'\<rparr>)"
  using assms
  by (auto simp: unmarshal_customObject_def Let_def update_conv'
      split: json.splits sum.splits option.splits)

text \<open>The keys of a data map that was read are valid UTF-8, whatever the client.\<close>

lemma getData_valid_key:
  assumes "getData s w = Inr d" and "map_of d k = Some v"
  shows "utf8_coerce k = k"
proof -
  from assms(1) obtain res obj where "unmarshal_customObject res = Inr obj" and "Data obj = d"
    by (auto simp: getData_def split: sum.splits)
  then have "unmarshal_entries
      (members (case map_of (members res) ''data'' of Some y \<Rightarrow> y | None \<Rightarrow> JNull)) = Inr d"
    using unmarshal_map_entries [OF unmarshal_customObject_data] by blast
  moreover from assms(2) have "k \<in> fst ` set d"
    by (metis map_of_eq_None_iff option.distinct(1))
  ultimately show ?thesis by (rule unmarshal_entries_valid_keys)
qed

text \<open>A document that was parsed, and the member \<^verbatim>\<open>data\<close> of it.\<close>

lemma parsed_data_member:
  assumes "parsed doc = doc"
  shows "parsed_members
           (members (case map_of (members doc) ''data'' of Some x \<Rightarrow> x | None \<Rightarrow> JNull))
         = members (case map_of (members doc) ''data'' of Some x \<Rightarrow> x | None \<Rightarrow> JNull)"
proof (cases "map_of (members doc) ''data''")
  case None
  then show ?thesis by simp
next
  case (Some x)
  from parsed_member [OF parsed_members_of [OF assms] Some] have "parsed x = x" .
  with Some show ?thesis by (simp add: parsed_members_of)
qed

lemma parsed_data_update:
  assumes "parsed doc = doc" and "parsed_members dfs = dfs"
  shows "parsed (JObject (AList.update ''data'' (JObject dfs) (members doc)))
         = JObject (AList.update ''data'' (JObject dfs) (members doc))"
  using parsed_members_update [OF parsed_members_of [OF assms(1)], of "''data''" "JObject dfs"]
    assms(2)
  by simp

subsection \<open>Put and Delete on the store\<close>

lemma Put_request:
  "Put s key val w =
     (case rest_Patch (k8sClient s) MergePatchType (tpoEndpoint s)
             (JObject [(''data'', JObject [(utf8_coerce key, JString (utf8_coerce val))])]) w of
        (Some e, w1) \<Rightarrow> (Some (External e), w1)
      | (None, w1) \<Rightarrow> (None, w1))"
  by (simp add: Put_def marshal_Put_body_def)

lemma Delete_request:
  "Delete s key w =
     (case rest_Patch (k8sClient s) MergePatchType (tpoEndpoint s)
             (JObject [(''data'', JObject [(utf8_coerce key, JNull)])]) w of
        (Some e, w1) \<Rightarrow> (Some (External e), w1)
      | (None, w1) \<Rightarrow> (None, w1))"
  by (simp add: Delete_def marshal_Delete_body_def)

lemma getData_world:
  assumes "k8sClient s = world_client" and "getData s w = Inr d"
  obtains raw obj where "map_of (objects w) (tpoEndpoint s) = Some raw"
    and "unmarshal_customObject (parsed raw) = Inr obj" and "Data obj = d"
  using assms
  by (auto simp: getData_def world_client_def world_Get_def split: option.splits sum.splits)

lemma getData_world_updated:
  assumes "k8sClient s = world_client" and "unmarshal_customObject (parsed doc') = Inr obj'"
  shows "getData s (w\<lparr>objects := AList.update (tpoEndpoint s) doc' (objects w)\<rparr>) = Inr (Data obj')"
  using assms by (simp add: getData_def world_client_def world_Get_def update_conv')

lemma Put_world:
  assumes c: "k8sClient s = world_client" and g: "getData s w = Inr d"
  shows "\<exists>w' d'. Put s key val w = (None, w') \<and> getData s w' = Inr d'
           \<and> map_of d' = (map_of d)(utf8_coerce key \<mapsto> utf8_coerce val)"
proof -
  from getData_world [OF c g] obtain raw obj where
    raw: "map_of (objects w) (tpoEndpoint s) = Some raw"
    and obj: "unmarshal_customObject (parsed raw) = Inr obj" and d: "Data obj = d" by blast
  define doc where "doc = parsed raw"
  have doc: "parsed doc = doc" by (simp add: doc_def)
  define old where "old = (case map_of (members doc) ''data'' of Some x \<Rightarrow> x | None \<Rightarrow> JNull)"
  define body where
    "body = JObject [(''data'', JObject [(utf8_coerce key, JString (utf8_coerce val))])]"
  have body: "parsed body = body" by (simp add: body_def)
  define doc' where "doc' = MergePatch doc body"
  define w' where "w' = w\<lparr>objects := AList.update (tpoEndpoint s) doc' (objects w)\<rparr>"
  have sane: "parsed_members (members old) = members old"
    unfolding old_def by (rule parsed_data_member [OF doc])
  have "unmarshal_entries (members old) = Inr d"
    using unmarshal_map_entries [OF unmarshal_customObject_data [OF obj]] d
    by (simp add: old_def doc_def)
  from unmarshal_entries_update [OF sane _ this, of "utf8_coerce key" "utf8_coerce val"]
  obtain d' where
    d': "unmarshal_entries
           (AList.update (utf8_coerce key) (JString (utf8_coerce val)) (members old)) = Inr d'"
    and m: "map_of d' = (map_of d)(utf8_coerce key \<mapsto> utf8_coerce val)" by auto
  have sane': "parsed_members
       (AList.update (utf8_coerce key) (JString (utf8_coerce val)) (members old))
     = AList.update (utf8_coerce key) (JString (utf8_coerce val)) (members old)"
    by (rule parsed_members_update [OF sane]) simp_all
  have eq: "doc' = JObject (AList.update ''data''
       (JObject (AList.update (utf8_coerce key) (JString (utf8_coerce val)) (members old)))
       (members doc))"
    unfolding doc'_def body_def MergePatch_Put_body old_def ..
  have "parsed doc' = doc'"
    unfolding eq by (rule parsed_data_update [OF doc sane'])
  moreover have "unmarshal_customObject doc' = Inr (obj\<lparr>Data := d'\<rparr>)"
    unfolding eq by (rule unmarshal_customObject_data_update [OF obj [folded doc_def] d'])
  ultimately have "getData s w' = Inr d'"
    using getData_world_updated [OF c, of doc' "obj\<lparr>Data := d'\<rparr>" w] by (simp add: w'_def)
  moreover have "Put s key val w = (None, w')"
    using c raw body
    by (simp add: Put_request world_client_def world_Patch_def w'_def doc'_def doc_def body_def)
  ultimately show ?thesis using m by (intro exI [of _ w'] exI [of _ d']) simp
qed

lemma Delete_world:
  assumes c: "k8sClient s = world_client" and g: "getData s w = Inr d"
  shows "\<exists>w' d'. Delete s key w = (None, w') \<and> getData s w' = Inr d'
           \<and> map_of d' = (map_of d)(utf8_coerce key := None)
           \<and> (map_of d (utf8_coerce key) = None \<longrightarrow> d' = d)"
proof -
  from getData_world [OF c g] obtain raw obj where
    raw: "map_of (objects w) (tpoEndpoint s) = Some raw"
    and obj: "unmarshal_customObject (parsed raw) = Inr obj" and d: "Data obj = d" by blast
  define doc where "doc = parsed raw"
  have doc: "parsed doc = doc" by (simp add: doc_def)
  define old where "old = (case map_of (members doc) ''data'' of Some x \<Rightarrow> x | None \<Rightarrow> JNull)"
  define body where "body = JObject [(''data'', JObject [(utf8_coerce key, JNull)])]"
  have body: "parsed body = body" by (simp add: body_def)
  define doc' where "doc' = MergePatch doc body"
  define w' where "w' = w\<lparr>objects := AList.update (tpoEndpoint s) doc' (objects w)\<rparr>"
  have sane: "parsed_members (members old) = members old"
    unfolding old_def by (rule parsed_data_member [OF doc])
  have old: "unmarshal_entries (members old) = Inr d"
    using unmarshal_map_entries [OF unmarshal_customObject_data [OF obj]] d
    by (simp add: old_def doc_def)
  from unmarshal_entries_delete [OF sane this, of "utf8_coerce key"] obtain d' where
    d': "unmarshal_entries (AList.delete (utf8_coerce key) (members old)) = Inr d'"
    and m: "map_of d' = (map_of d)(utf8_coerce key := None)" by blast
  have same: "d' = d" if "map_of d (utf8_coerce key) = None"
  proof -
    from that have "utf8_coerce key \<notin> fst ` set d" by (simp add: map_of_eq_None_iff)
    then have "utf8_coerce key \<notin> fst ` set (members old)"
      using unmarshal_entries_keys [OF sane old] by simp
    then have "AList.delete (utf8_coerce key) (members old) = members old" by simp
    with d' old show ?thesis by simp
  qed
  have sane': "parsed_members (AList.delete (utf8_coerce key) (members old))
     = AList.delete (utf8_coerce key) (members old)"
    by (rule parsed_members_delete [OF sane])
  have eq: "doc' = JObject (AList.update ''data''
       (JObject (AList.delete (utf8_coerce key) (members old))) (members doc))"
    unfolding doc'_def body_def MergePatch_Delete_body old_def ..
  have "parsed doc' = doc'"
    unfolding eq by (rule parsed_data_update [OF doc sane'])
  moreover have "unmarshal_customObject doc' = Inr (obj\<lparr>Data := d'\<rparr>)"
    unfolding eq by (rule unmarshal_customObject_data_update [OF obj [folded doc_def] d'])
  ultimately have "getData s w' = Inr d'"
    using getData_world_updated [OF c, of doc' "obj\<lparr>Data := d'\<rparr>" w] by (simp add: w'_def)
  moreover have "Delete s key w = (None, w')"
    using c raw body
    by (simp add: Delete_request world_client_def world_Patch_def w'_def doc'_def doc_def body_def)
  ultimately show ?thesis using m same by (intro exI [of _ w'] exI [of _ d']) simp
qed

subsection \<open>Examples, and where the claims fail as stated\<close>

lemma Put_example:
  "Put (world_Storage ''/o'') ''/k'' ''v'' (world_with ''/o'' example_doc) =
     (None, world_with ''/o''
        (JObject [(''kind'', JString ''Storage''),
                  (''data'', JObject [(''/a'', JString ''1''), (''/a/b'', JString ''2''),
                                      (''/k'', JString ''v'')])]))"
  by (simp add: Put_request world_Storage_def world_client_def world_Patch_def world_with_def
      example_doc_def)

lemma Delete_example:
  "Delete (world_Storage ''/o'') ''/a'' (world_with ''/o'' example_doc) =
     (None, world_with ''/o''
        (JObject [(''kind'', JString ''Storage''), (''data'', JObject [(''/a/b'', JString ''2'')])]))"
  by (simp add: Delete_request world_Storage_def world_client_def world_Patch_def world_with_def
      example_doc_def)

lemma k8sClient_world_Storage: "k8sClient (world_Storage ep) = world_client"
  by (simp add: world_Storage_def)

lemma getData_world_with:
  "getData (world_Storage ep) (world_with ep doc) =
     (case unmarshal_customObject (parsed doc) of
        Inl e \<Rightarrow> Inl (External e)
      | Inr v \<Rightarrow> Inr (Data v))"
  by (simp add: getData_def world_Storage_def world_client_def world_Get_def world_with_def)

lemma Put_world_with:
  "Put (world_Storage ep) key val (world_with ep doc) =
     (None, world_with ep
        (MergePatch (parsed doc)
           (JObject [(''data'', JObject [(utf8_coerce key, JString (utf8_coerce val))])])))"
  by (simp add: Put_request world_Storage_def world_client_def world_Patch_def world_with_def)

lemma Delete_world_with:
  "Delete (world_Storage ep) key (world_with ep doc) =
     (None, world_with ep
        (MergePatch (parsed doc) (JObject [(''data'', JObject [(utf8_coerce key, JNull)])])))"
  by (simp add: Delete_request world_Storage_def world_client_def world_Patch_def world_with_def)

lemma getData_replacement:
  "getData (world_Storage ''/o'') (world_with ''/o'' replacement_doc) = Inr [(RuneError, ''x'')]"
  by (simp add: getData_world_with replacement_doc_def unmarshal_customObject_def
      utf8_coerce_RuneError)

text \<open>
  C5 as it is stated, for every key, fails. The key \<^verbatim>\<open>"\xff"\<close> is no valid UTF-8:
  the body that \<^verbatim>\<open>Put\<close> sends names the key U+FFFD in its place, and on a store
  whose data map has the key U+FFFD the entry of that key, which is another key
  than the one written, is replaced.
\<close>

theorem Put_invalid_key_overwrites_another_key:
  "getData (world_Storage ''/o'') (world_with ''/o'' replacement_doc) = Inr [(RuneError, ''x'')]
   \<and> fst (Put (world_Storage ''/o'') [CHR 0xFF] ''y'' (world_with ''/o'' replacement_doc)) = None
   \<and> getData (world_Storage ''/o'')
        (snd (Put (world_Storage ''/o'') [CHR 0xFF] ''y'' (world_with ''/o'' replacement_doc)))
       = Inr [(RuneError, ''y'')]
   \<and> RuneError \<noteq> [CHR 0xFF]"
  by (simp add: getData_replacement Put_world_with getData_world_with replacement_doc_def
      unmarshal_customObject_def utf8_coerce_RuneError utf8_coerce_invalid_byte
      RuneError_neq_invalid_byte)

text \<open>
  C6 as it is stated, for all keys and values and in any store state, fails in
  three ways. After \<^verbatim>\<open>Put\<close> of the value \<^verbatim>\<open>"\xff"\<close>, which is no valid UTF-8,
  \<^verbatim>\<open>Search\<close> returns U+FFFD, another string. After \<^verbatim>\<open>Put\<close> of the key
  \<^verbatim>\<open>"\xff"\<close>, \<^verbatim>\<open>Exists\<close> of that key returns false: the entry is under U+FFFD. In
  a state whose backing object has an entry that is no string, \<^verbatim>\<open>Put\<close> succeeds
  and \<^verbatim>\<open>Search\<close> returns the error of the decoding.
\<close>

theorem Put_then_Search_invalid_or_malformed:
  "fst (Put (world_Storage ''/o'') ''/k'' [CHR 0xFF] (world_with ''/o'' example_doc)) = None
   \<and> Search (world_Storage ''/o'') ''/k''
        (snd (Put (world_Storage ''/o'') ''/k'' [CHR 0xFF] (world_with ''/o'' example_doc)))
       = Inr RuneError
   \<and> RuneError \<noteq> [CHR 0xFF]
   \<and> fst (Put (world_Storage ''/o'') [CHR 0xFF] ''v'' (world_with ''/o'' example_doc)) = None
   \<and> Exists (world_Storage ''/o'') [CHR 0xFF]
        (snd (Put (world_Storage ''/o'') [CHR 0xFF] ''v'' (world_with ''/o'' example_doc)))
       = Inr False
   \<and> fst (Put (world_Storage ''/o'') ''/k'' ''v'' (world_with ''/o'' malformed_doc)) = None
   \<and> Search (world_Storage ''/o'') ''/k''
        (snd (Put (world_Storage ''/o'') ''/k'' ''v'' (world_with ''/o'' malformed_doc)))
       = Inl (External (OtherError ''json: cannot unmarshal object into Go value of type string''))"
  by (simp add: Put_world_with getData_world_with Search_def Exists_def example_doc_def
      malformed_doc_def unmarshal_customObject_def utf8_coerce_RuneError [unfolded RuneError_def]
      utf8_coerce_invalid_byte [unfolded RuneError_def] RuneError_def)

text \<open>
  C8 as it is stated, for every key absent from the data map, fails. The key
  \<^verbatim>\<open>"\xff"\<close> is no entry of the data map with the one key U+FFFD; the body that
  \<^verbatim>\<open>Delete\<close> sends names U+FFFD in its place, and the data map read afterwards
  is empty.
\<close>

theorem Delete_invalid_key_removes_another_key:
  "getData (world_Storage ''/o'') (world_with ''/o'' replacement_doc) = Inr [(RuneError, ''x'')]
   \<and> map_of [(RuneError, ''x'')] [CHR 0xFF] = None
   \<and> fst (Delete (world_Storage ''/o'') [CHR 0xFF] (world_with ''/o'' replacement_doc)) = None
   \<and> getData (world_Storage ''/o'')
        (snd (Delete (world_Storage ''/o'') [CHR 0xFF] (world_with ''/o'' replacement_doc)))
       = Inr []"
  by (simp add: getData_replacement Delete_world_with getData_world_with replacement_doc_def
      unmarshal_customObject_def utf8_coerce_RuneError utf8_coerce_invalid_byte
      RuneError_neq_invalid_byte RuneError_neq_invalid_byte [symmetric])

subsection \<open>The claims\<close>

lemma utf8_ValidString_examples:
  "utf8_ValidString ''/k''" "utf8_ValidString ''v''" "utf8_ValidString ''/zz''"
  by (simp_all add: utf8_ValidString_def)

text \<open>
  C5, amended. For every key and value that are valid UTF-8 and every client,
  \<^verbatim>\<open>Put\<close> issues one request: a patch of type \<^verbatim>\<open>MergePatchType\<close> to the item
  endpoint with the body \<^verbatim>\<open>{"data": {key: value}}\<close>, and returns its error. For
  every key that is valid UTF-8, on the store with merge-patch semantics, when the
  data map can be read before a \<^verbatim>\<open>Put\<close> that succeeds, it can be read after it and
  every key other than the one written has the entry it had.
\<close>

theorem Put_patches_one_key:
  "(utf8_ValidString key \<and> utf8_ValidString val \<longrightarrow>
      Put s key val w =
        (case rest_Patch (k8sClient s) MergePatchType (tpoEndpoint s)
                (JObject [(''data'', JObject [(key, JString val)])]) w of
           (Some e, w1) \<Rightarrow> (Some (External e), w1)
         | (None, w1) \<Rightarrow> (None, w1)))
   \<and> (utf8_ValidString key \<and> k8sClient ws = world_client \<and> getData ws ww = Inr d
        \<and> Put ws key val ww = (None, w') \<longrightarrow>
        (\<exists>d'. getData ws w' = Inr d' \<and> (\<forall>k'. k' \<noteq> key \<longrightarrow> map_of d' k' = map_of d k')))"
proof (intro conjI impI)
  assume "utf8_ValidString key \<and> utf8_ValidString val"
  then show "Put s key val w =
        (case rest_Patch (k8sClient s) MergePatchType (tpoEndpoint s)
                (JObject [(''data'', JObject [(key, JString val)])]) w of
           (Some e, w1) \<Rightarrow> (Some (External e), w1)
         | (None, w1) \<Rightarrow> (None, w1))"
    using Put_request [of s key val w] by (simp add: utf8_ValidString_def)
next
  assume a: "utf8_ValidString key \<and> k8sClient ws = world_client \<and> getData ws ww = Inr d
        \<and> Put ws key val ww = (None, w')"
  with Put_world [of ws ww d key val] obtain d' where "getData ws w' = Inr d'"
    and "map_of d' = (map_of d)(utf8_coerce key \<mapsto> utf8_coerce val)" by auto
  with a show "\<exists>d'. getData ws w' = Inr d' \<and> (\<forall>k'. k' \<noteq> key \<longrightarrow> map_of d' k' = map_of d k')"
    by (simp add: utf8_ValidString_def)
qed

theorem Put_patches_one_key_witness:
  "Put (world_Storage ''/o'') ''/k'' ''v'' (world_with ''/o'' example_doc) =
     (None, world_with ''/o''
        (JObject [(''kind'', JString ''Storage''),
                  (''data'', JObject [(''/a'', JString ''1''), (''/a/b'', JString ''2''),
                                      (''/k'', JString ''v'')])]))
   \<and> (\<exists>d'. getData (world_Storage ''/o'')
               (snd (Put (world_Storage ''/o'') ''/k'' ''v'' (world_with ''/o'' example_doc))) = Inr d'
          \<and> map_of d' ''/a'' = Some ''1'' \<and> map_of d' ''/a/b'' = Some ''2'')"
proof -
  let ?s = "world_Storage ''/o''"
  let ?w = "world_with ''/o'' example_doc"
  let ?w' = "snd (Put ?s ''/k'' ''v'' ?w)"
  have h: "utf8_ValidString ''/k'' \<and> k8sClient ?s = world_client
      \<and> getData ?s ?w = Inr [(''/a'', ''1''), (''/a/b'', ''2'')]
      \<and> Put ?s ''/k'' ''v'' ?w = (None, ?w')"
    by (simp add: k8sClient_world_Storage getData_example Put_example utf8_ValidString_examples)
  from Put_patches_one_key [of "''/k''" "''v''" ?s ?w ?s ?w "[(''/a'', ''1''), (''/a/b'', ''2'')]" ?w'] h
  obtain d' where g: "getData ?s ?w' = Inr d'"
    and f: "\<forall>k'. k' \<noteq> ''/k'' \<longrightarrow> map_of d' k' = map_of [(''/a'', ''1''), (''/a/b'', ''2'')] k'"
    by blast
  from f have "map_of d' ''/a'' = Some ''1''" and "map_of d' ''/a/b'' = Some ''2''"
    by simp_all
  with g Put_example show ?thesis by blast
qed

text \<open>
  C6, amended. For all keys and values that are valid UTF-8, in every state of
  the store with merge-patch semantics in which the backing object can be fetched
  and decoded: after a \<^verbatim>\<open>Put\<close> that succeeds, in the state it leaves, \<^verbatim>\<open>Search\<close> of
  the key returns the value and \<^verbatim>\<open>Exists\<close> returns true.
\<close>

theorem Put_then_Search_and_Exists:
  assumes "utf8_ValidString k" and "utf8_ValidString v"
    and "k8sClient s = world_client" and "getData s w = Inr d" and "Put s k v w = (None, w')"
  shows "Search s k w' = Inr v \<and> Exists s k w' = Inr True"
proof -
  from Put_world [OF assms(3,4), of k v] assms(5) obtain d' where "getData s w' = Inr d'"
    and "map_of d' = (map_of d)(utf8_coerce k \<mapsto> utf8_coerce v)" by auto
  with assms(1,2) show ?thesis by (simp add: Search_def Exists_def utf8_ValidString_def)
qed

theorem Put_then_Search_and_Exists_witness:
  "Search (world_Storage ''/o'') ''/k''
     (snd (Put (world_Storage ''/o'') ''/k'' ''v'' (world_with ''/o'' example_doc))) = Inr ''v''
   \<and> Exists (world_Storage ''/o'') ''/k''
     (snd (Put (world_Storage ''/o'') ''/k'' ''v'' (world_with ''/o'' example_doc))) = Inr True"
  using Put_then_Search_and_Exists [OF utf8_ValidString_examples(1,2) k8sClient_world_Storage
      getData_example,
      of "snd (Put (world_Storage ''/o'') ''/k'' ''v'' (world_with ''/o'' example_doc))"]
  by (simp add: Put_example)

text \<open>
  C7. For every key that is an entry of the stored data map, on the store with
  merge-patch semantics: after a \<^verbatim>\<open>Delete\<close> that succeeds, in the state it leaves,
  \<^verbatim>\<open>Exists\<close> of the key returns false and \<^verbatim>\<open>Search\<close> returns \<^verbatim>\<open>notFoundError\<close>.
  (A key of a data map that was read is valid UTF-8, so the body names it.)
\<close>

theorem Delete_then_absent:
  assumes "k8sClient s = world_client" and "getData s w = Inr d" and "map_of d k = Some v"
    and "Delete s k w = (None, w')"
  shows "Exists s k w' = Inr False \<and> Search s k w' = Inl notFoundError"
proof -
  from getData_valid_key [OF assms(2,3)] have k: "utf8_coerce k = k" .
  from Delete_world [OF assms(1,2), of k] assms(4) obtain d' where "getData s w' = Inr d'"
    and "map_of d' = (map_of d)(utf8_coerce k := None)" by auto
  with k show ?thesis by (simp add: Search_def Exists_def)
qed

theorem Delete_then_absent_witness:
  "Exists (world_Storage ''/o'') ''/a''
     (snd (Delete (world_Storage ''/o'') ''/a'' (world_with ''/o'' example_doc))) = Inr False
   \<and> Search (world_Storage ''/o'') ''/a''
     (snd (Delete (world_Storage ''/o'') ''/a'' (world_with ''/o'' example_doc))) = Inl notFoundError"
  using Delete_then_absent [OF k8sClient_world_Storage getData_example,
      of "''/a''" "''1''"
         "snd (Delete (world_Storage ''/o'') ''/a'' (world_with ''/o'' example_doc))"]
  by (simp add: Delete_example)

text \<open>
  C8, amended. For every key that is valid UTF-8 and every client, \<^verbatim>\<open>Delete\<close>
  issues one request: a patch of type \<^verbatim>\<open>MergePatchType\<close> to the item endpoint with
  the body \<^verbatim>\<open>{"data": {key: null}}\<close>, and returns its error. On the store with
  merge-patch semantics, for a key that is valid UTF-8 and no entry of the stored
  data map, \<^verbatim>\<open>Delete\<close> returns no error and the data map read afterwards is the
  one read before.
\<close>

theorem Delete_absent_key_is_noop:
  "(utf8_ValidString key \<longrightarrow>
      Delete s key w =
        (case rest_Patch (k8sClient s) MergePatchType (tpoEndpoint s)
                (JObject [(''data'', JObject [(key, JNull)])]) w of
           (Some e, w1) \<Rightarrow> (Some (External e), w1)
         | (None, w1) \<Rightarrow> (None, w1)))
   \<and> (utf8_ValidString key \<and> k8sClient ws = world_client \<and> getData ws ww = Inr d
        \<and> map_of d key = None \<longrightarrow>
        (\<exists>w'. Delete ws key ww = (None, w') \<and> getData ws w' = Inr d))"
proof (intro conjI impI)
  assume "utf8_ValidString key"
  then show "Delete s key w =
        (case rest_Patch (k8sClient s) MergePatchType (tpoEndpoint s)
                (JObject [(''data'', JObject [(key, JNull)])]) w of
           (Some e, w1) \<Rightarrow> (Some (External e), w1)
         | (None, w1) \<Rightarrow> (None, w1))"
    using Delete_request [of s key w] by (simp add: utf8_ValidString_def)
next
  assume a: "utf8_ValidString key \<and> k8sClient ws = world_client \<and> getData ws ww = Inr d
        \<and> map_of d key = None"
  then have k: "utf8_coerce key = key" by (simp add: utf8_ValidString_def)
  from a k Delete_world [of ws ww d key] obtain w' d' where "Delete ws key ww = (None, w')"
    and "getData ws w' = Inr d'" and "d' = d" by auto
  then show "\<exists>w'. Delete ws key ww = (None, w') \<and> getData ws w' = Inr d" by auto
qed

lemma Delete_example_absent:
  "Delete (world_Storage ''/o'') ''/zz'' (world_with ''/o'' example_doc)
     = (None, world_with ''/o'' example_doc)"
  by (simp add: Delete_request world_Storage_def world_client_def world_Patch_def world_with_def
      example_doc_def)

theorem Delete_absent_key_is_noop_witness:
  "Delete (world_Storage ''/o'') ''/zz'' (world_with ''/o'' example_doc)
     = (None, world_with ''/o'' example_doc)
   \<and> (\<exists>w'. Delete (world_Storage ''/o'') ''/zz'' (world_with ''/o'' example_doc) = (None, w')
         \<and> getData (world_Storage ''/o'') w' = Inr [(''/a'', ''1''), (''/a/b'', ''2'')])"
proof -
  let ?s = "world_Storage ''/o''"
  let ?w = "world_with ''/o'' example_doc"
  have h: "utf8_ValidString ''/zz'' \<and> k8sClient ?s = world_client
      \<and> getData ?s ?w = Inr [(''/a'', ''1''), (''/a/b'', ''2'')]
      \<and> map_of [(''/a'', ''1''), (''/a/b'', ''2'')] ''/zz'' = None"
    by (simp add: k8sClient_world_Storage getData_example utf8_ValidString_examples)
  from Delete_absent_key_is_noop [of "''/zz''" ?s ?w ?s ?w "[(''/a'', ''1''), (''/a/b'', ''2'')]"] h
  have "\<exists>w'. Delete ?s ''/zz'' ?w = (None, w')
      \<and> getData ?s w' = Inr [(''/a'', ''1''), (''/a/b'', ''2'')]"
    by blast
  with Delete_example_absent show ?thesis by blast
qed

section \<open>The loop of List\<close>

text \<open>
  The defect of \<^verbatim>\<open>List\<close> is confined to the exact match: over keys none of which
  equals the prefix the loop returns the remainders of the keys below the prefix,
  in the order of the iteration, and over keys one of which equals the prefix it
  panics.
\<close>

lemma selects_below:
  assumes "prefix key k" and "k \<noteq> key"
  shows "length key < length k" and "(k ! length key = CHR ''/'') = prefix (key @ ''/'') k"
proof -
  from assms obtain r where k: "k = key @ r" and r: "r \<noteq> []"
    by (auto simp: prefix_def)
  then obtain c cs where rc: "r = c # cs" by (cases r) auto
  show "length key < length k" using k r by simp
  show "(k ! length key = CHR ''/'') = prefix (key @ ''/'') k"
    using k rc by (auto simp: nth_append)
qed

lemma List_loop_without_exact_match:
  "key \<notin> set ks \<Longrightarrow>
   List_loop key ks list =
     Inr (list @ map (drop (length key + 1)) (filter (\<lambda>k. prefix (key @ ''/'') k) ks))"
proof (induction ks arbitrary: list)
  case Nil
  then show ?case by simp
next
  case (Cons k ks)
  then have ne: "k \<noteq> key" and rest: "key \<notin> set ks" by auto
  show ?case
  proof (cases "prefix key k")
    case True
    from selects_below [OF True ne] Cons.IH [OF rest] True show ?thesis by auto
  next
    case False
    then have "\<not> prefix (key @ ''/'') k" by (auto dest: append_prefixD)
    with False Cons.IH [OF rest] show ?thesis by simp
  qed
qed

lemma List_loop_exact_match_panics:
  "key \<in> set ks \<Longrightarrow> List_loop key ks list = Inl panic_slice_bounds_out_of_range"
proof (induction ks arbitrary: list)
  case Nil
  then show ?case by simp
next
  case (Cons k ks)
  show ?case
  proof (cases "k = key")
    case True
    then show ?thesis by simp
  next
    case False
    with Cons.prems have rest: "key \<in> set ks" by simp
    show ?thesis
    proof (cases "prefix key k")
      case True
      from selects_below [OF True False] Cons.IH [OF rest] True show ?thesis by auto
    next
      case False
      with Cons.IH [OF rest] show ?thesis by simp
    qed
  qed
qed

end
